theory Spec2Isabelle
  imports Complex_Main "HOL-Library.Monad_Syntax"
begin

section \<open>Scalar types of OrderBook.h\<close>

text \<open>
  The model follows \<^verbatim>\<open>src/OrderBook.h\<close>: the classes \<^verbatim>\<open>Order\<close>, \<^verbatim>\<open>OrderMinMaxHeap\<close>,
  \<^verbatim>\<open>OrderEntry\<close> and \<^verbatim>\<open>OrderBook\<close>. The driver (\<^verbatim>\<open>interpret_order\<close>, \<^verbatim>\<open>interpret_orders\<close>)
  and the command parser are in the repository's other source file.
  \<^item> \<^verbatim>\<open>order_id_t\<close> and \<^verbatim>\<open>quantity_t\<close> (\<^verbatim>\<open>uint64_t\<close>) are \<open>nat\<close>: the code does no
    integer arithmetic on them.
  \<^item> \<^verbatim>\<open>time_t\<close> is \<open>int\<close>; \<open>-1\<close> is the default argument meaning "now".
  \<^item> \<^verbatim>\<open>price_t\<close> (\<^verbatim>\<open>float\<close>) is \<open>rat\<close>: comparisons and the subtraction in
    \<^verbatim>\<open>OrderMinMaxHeap::transact\<close> are exact. Rounding of \<^verbatim>\<open>float\<close> is not modelled; every
    concrete value used below is a small integer, on which \<^verbatim>\<open>float\<close> arithmetic is exact.
  \<^item> The status codes of \<^verbatim>\<open>enum error_status\<close> are \<open>int\<close>, since the code passes them
    through \<^verbatim>\<open>int\<close> and \<^verbatim>\<open>bool\<close> variables.
  \<^item> A result of type \<open>'a option\<close> is \<open>None\<close> when the C++ execution has no defined
    result: an array access outside its bounds or a null pointer dereference.
  \<^item> Memory is unbounded: \<^verbatim>\<open>new\<close> always succeeds.
\<close>

definition MAX_NUM_ORDERS_IN_HEAP :: int where
  "MAX_NUM_ORDERS_IN_HEAP = 65536"

definition NUM_TOTAL_SYMBOLS_IN_ORDER_BOOK :: int where
  "NUM_TOTAL_SYMBOLS_IN_ORDER_BOOK = 65536"

definition ACCEPT :: int where "ACCEPT = 0"
definition INVALID_AMMENDMENT_DETAILS :: int where "INVALID_AMMENDMENT_DETAILS = 101"
definition INVALID_ORDER_DETAILS :: int where "INVALID_ORDER_DETAILS = 303"
definition ORDER_DOES_NOT_EXIST :: int where "ORDER_DOES_NOT_EXIST = 404"

datatype action_t = NEW | AMEND | CANCEL | MATCH | QUERY

datatype order_type_t = MARKET | LIMIT | IOC

datatype side_t = BUY | SELL

datatype execution_status_t = NOT_EXECUTED | PARTIALLY_EXECUTED | EXECUTED | CANCELLED

section \<open>Order and its alteration history\<close>

text \<open>
  \<^verbatim>\<open>struct alteration_history_t\<close> is a singly linked list node; \<open>next_update = None\<close> is the
  \<^verbatim>\<open>NULL\<close> pointer. The constructor of \<^verbatim>\<open>Order\<close> always allocates the first node, so the
  \<^verbatim>\<open>history\<close> pointer of an order is a node, never \<^verbatim>\<open>NULL\<close>.
\<close>

datatype alteration_history_t =
  Alteration (history: execution_status_t) (date: int) (price: rat)
    (quantity_remaining: nat) (next_update: "alteration_history_t option")

record Order =
  order_id :: nat
  order_type :: order_type_t
  order_history :: alteration_history_t

definition Order_new :: "nat \<Rightarrow> order_type_t \<Rightarrow> int \<Rightarrow> rat \<Rightarrow> nat \<Rightarrow> Order" where
  "Order_new oid ot t p q =
     \<lparr>order_id = oid, order_type = ot,
      order_history = Alteration NOT_EXECUTED t p q None\<rparr>"

definition Order_default :: Order where
  "Order_default = Order_new 0 MARKET 0 0 0"

text \<open>
  The loop of \<^verbatim>\<open>Order::get_history_entry\<close>: \<open>most_recent\<close> is the accumulator, the third
  argument is the cursor \<^verbatim>\<open>eht\<close>.
\<close>

fun history_loop ::
  "int \<Rightarrow> alteration_history_t \<Rightarrow> alteration_history_t option \<Rightarrow> alteration_history_t" where
  "history_loop t most_recent None = most_recent"
| "history_loop t most_recent (Some (Alteration s d p q nxt)) =
     (if t = -1 \<or> d \<le> t then history_loop t (Alteration s d p q nxt) nxt else most_recent)"

definition get_history_entry :: "Order \<Rightarrow> int \<Rightarrow> alteration_history_t" where
  "get_history_entry ord t = history_loop t (order_history ord) (Some (order_history ord))"

definition active_at :: "Order \<Rightarrow> int \<Rightarrow> bool" where
  "active_at ord t =
     (let status = history (get_history_entry ord t) in
      (t = -1 \<or> date (order_history ord) \<le> t) \<and> status \<noteq> EXECUTED \<and> status \<noteq> CANCELLED)"

definition get_status :: "Order \<Rightarrow> int \<Rightarrow> execution_status_t" where
  "get_status ord t = history (get_history_entry ord t)"

definition get_price :: "Order \<Rightarrow> int \<Rightarrow> rat" where
  "get_price ord t = price (get_history_entry ord t)"

definition get_quantity :: "Order \<Rightarrow> int \<Rightarrow> nat" where
  "get_quantity ord t = quantity_remaining (get_history_entry ord t)"

definition get_timestamp :: "Order \<Rightarrow> int \<Rightarrow> int" where
  "get_timestamp ord t = date (get_history_entry ord t)"

text \<open>
  \<^verbatim>\<open>history_entry->next_update = new_entry\<close>, where \<^verbatim>\<open>history_entry\<close> is the node returned by
  \<^verbatim>\<open>get_history_entry()\<close> with the default \<open>t = -1\<close>: the loop then accepts every node, so
  the node assigned to is the last one of the chain (lemma \<open>history_loop_now\<close> below).
\<close>

fun set_last_next :: "alteration_history_t \<Rightarrow> alteration_history_t \<Rightarrow> alteration_history_t" where
  "set_last_next (Alteration s d p q None) new_entry = Alteration s d p q (Some new_entry)"
| "set_last_next (Alteration s d p q (Some r)) new_entry =
     Alteration s d p q (Some (set_last_next r new_entry))"

definition add_execution_history_entry ::
  "Order \<Rightarrow> execution_status_t \<Rightarrow> int \<Rightarrow> rat \<Rightarrow> nat \<Rightarrow> Order" where
  "add_execution_history_entry ord h d p q =
     (let new_entry = Alteration h d p q None;
          history_entry = get_history_entry ord (-1)
      in if date history_entry > d then ord
         else ord\<lparr>order_history := set_last_next (order_history ord) new_entry\<rparr>)"

definition Order_transact :: "Order \<Rightarrow> int \<Rightarrow> rat \<Rightarrow> nat \<Rightarrow> Order" where
  "Order_transact ord d new_price new_quantity =
     (let status = (if new_quantity = 0 then EXECUTED else PARTIALLY_EXECUTED)
      in add_execution_history_entry ord status d new_price new_quantity)"

definition Order_ammend :: "Order \<Rightarrow> rat \<Rightarrow> nat \<Rightarrow> Order" where
  "Order_ammend ord new_price new_quantity =
     (let history_entry = get_history_entry ord (-1)
      in add_execution_history_entry ord
           (history history_entry) (date history_entry) new_price new_quantity)"

text \<open>The nodes of a chain in order, and the fields of a node without its link.\<close>

fun entries :: "alteration_history_t \<Rightarrow> alteration_history_t list" where
  "entries (Alteration s d p q None) = [Alteration s d p q None]"
| "entries (Alteration s d p q (Some r)) = Alteration s d p q (Some r) # entries r"

definition record_of :: "alteration_history_t \<Rightarrow> execution_status_t \<times> int \<times> rat \<times> nat" where
  "record_of e = (history e, date e, price e, quantity_remaining e)"

definition records :: "Order \<Rightarrow> (execution_status_t \<times> int \<times> rat \<times> nat) list" where
  "records ord = map record_of (entries (order_history ord))"

section \<open>OrderMinMaxHeap\<close>

text \<open>
  The arrays \<^verbatim>\<open>data\<close> and \<^verbatim>\<open>allocated\<close> are functions on \<open>int\<close>, read and written only
  through the bounds-checked accessors below. \<^verbatim>\<open>active_ptr\<close> and \<^verbatim>\<open>matched_ptr\<close> are kept
  as the offsets \<^verbatim>\<open>active_ptr - data\<close> and \<^verbatim>\<open>matched_ptr - data\<close>.
\<close>

datatype order_heap_type_t = BUY_HEAP | SELL_HEAP

record OrderMinMaxHeap =
  data :: "int \<Rightarrow> Order"
  active_ptr :: int
  matched_ptr :: int
  allocated :: "int \<Rightarrow> bool"
  heap_type :: order_heap_type_t

definition in_bounds :: "int \<Rightarrow> bool" where
  "in_bounds i = (0 \<le> i \<and> i < MAX_NUM_ORDERS_IN_HEAP)"

definition data_at :: "OrderMinMaxHeap \<Rightarrow> int \<Rightarrow> Order option" where
  "data_at h i = (if in_bounds i then Some (data h i) else None)"

definition allocated_at :: "OrderMinMaxHeap \<Rightarrow> int \<Rightarrow> bool option" where
  "allocated_at h i = (if in_bounds i then Some (allocated h i) else None)"

text \<open>
  \<^verbatim>\<open>int\<close> is 32 bits wide; \<^verbatim>\<open>x << k\<close> is the two's-complement shift (the value wraps).
  \<^verbatim>\<open>a << 1 + 1\<close> parses as \<^verbatim>\<open>a << (1 + 1)\<close>.
\<close>

definition int32 :: "int \<Rightarrow> int" where
  "int32 x = (x + 2147483648) mod 4294967296 - 2147483648"

definition shl :: "int \<Rightarrow> nat \<Rightarrow> int" where
  "shl x k = int32 (x * 2 ^ k)"

text \<open>
  Conversions from \<^verbatim>\<open>float\<close> to \<^verbatim>\<open>int\<close> and to \<^verbatim>\<open>uint64_t\<close> truncate towards zero and are
  undefined when the truncated value is out of range.
\<close>

definition float_to_int :: "rat \<Rightarrow> int option" where
  "float_to_int x =
     (if - 2147483649 < x \<and> x < 2147483648
      then Some (if 0 \<le> x then \<lfloor>x\<rfloor> else \<lceil>x\<rceil>) else None)"

definition float_to_uint64 :: "rat \<Rightarrow> nat option" where
  "float_to_uint64 x =
     (if - 1 < x \<and> x < 18446744073709551616 then Some (nat \<lfloor>x\<rfloor>) else None)"

definition Heap_swap :: "OrderMinMaxHeap \<Rightarrow> int \<Rightarrow> int \<Rightarrow> OrderMinMaxHeap option" where
  "Heap_swap h a b = do {
     temp \<leftarrow> data_at h a;
     y \<leftarrow> data_at h b;
     Some (h\<lparr>data := (data h)(a := y, b := temp)\<rparr>)
   }"

text \<open>
  \<^verbatim>\<open>has_precedence\<close> on two orders returns in its first statement; the comparison by heap
  type and timestamp that follows it in the source is never executed.
\<close>

definition has_precedence :: "Order \<Rightarrow> Order \<Rightarrow> int \<Rightarrow> bool" where
  "has_precedence a b t = (get_price a t < get_price b t)"

definition has_precedence_at :: "OrderMinMaxHeap \<Rightarrow> int \<Rightarrow> int \<Rightarrow> int \<Rightarrow> bool option" where
  "has_precedence_at h a b t = do {
     x \<leftarrow> data_at h a;
     y \<leftarrow> data_at h b;
     Some (has_precedence x y t)
   }"

definition has_children :: "OrderMinMaxHeap \<Rightarrow> int \<Rightarrow> bool option" where
  "has_children h a = do {
     c \<leftarrow> allocated_at h (shl a 1);
     if c then Some True else allocated_at h (shl a 2)
   }"

definition smallest_descendant :: "OrderMinMaxHeap \<Rightarrow> int \<Rightarrow> int option" where
  "smallest_descendant h a = do {
     c1 \<leftarrow> allocated_at h (shl a 1);
     min1 \<leftarrow> (if c1 then do { x \<leftarrow> data_at h (shl a 1); float_to_int (get_price x (-1)) }
              else Some (-1));
     c2 \<leftarrow> allocated_at h (shl a 2);
     if c2 then do {
       x \<leftarrow> data_at h (shl a 1);
       if min1 = -1 \<or> get_price x (-1) < of_int min1
       then float_to_int (get_price x (-1)) else Some min1
     } else Some min1
   }"

definition get_parent :: "int \<Rightarrow> int" where
  "get_parent m = shl m 1"

partial_function (option) is_grandchild_loop :: "int \<Rightarrow> int \<Rightarrow> bool \<Rightarrow> bool option" where
  "is_grandchild_loop i b result =
     (if i > b then is_grandchild_loop (shl i 1) b True else Some result)"

definition is_grandchild_of :: "int \<Rightarrow> int \<Rightarrow> bool option" where
  "is_grandchild_of a b = is_grandchild_loop a b False"

text \<open>
  The sift loops are \<^theory_text>\<open>partial_function\<close>s: \<open>None\<close> is an execution without a defined
  result (an access out of bounds, or a loop that does not return, as
  \<^verbatim>\<open>push_up_max(0)\<close>). The loop variables of \<^verbatim>\<open>push_down_min\<close> are \<open>i\<close> and \<open>mi\<close>.
\<close>

partial_function (option) push_down_min_loop ::
  "int \<Rightarrow> OrderMinMaxHeap \<Rightarrow> int \<Rightarrow> int \<Rightarrow> OrderMinMaxHeap option" where
  "push_down_min_loop m h i mi = do {
     c \<leftarrow> has_children h mi;
     if c then do {
       p \<leftarrow> has_precedence_at h mi i (-1);
       if p then do {
         g \<leftarrow> is_grandchild_of mi i;
         h' \<leftarrow> (if g then do {
                  h1 \<leftarrow> Heap_swap h mi i;
                  p2 \<leftarrow> has_precedence_at h1 m (get_parent m) (-1);
                  if p2 then Heap_swap h1 m (get_parent m) else Some h1
                } else Heap_swap h m i);
         mi' \<leftarrow> smallest_descendant h' mi;
         push_down_min_loop m h' mi mi'
       } else Some h
     } else Some h
   }"

definition push_down_min :: "OrderMinMaxHeap \<Rightarrow> int \<Rightarrow> OrderMinMaxHeap option" where
  "push_down_min h m = push_down_min_loop m h m m"

partial_function (option) push_down_max_loop ::
  "int \<Rightarrow> OrderMinMaxHeap \<Rightarrow> int \<Rightarrow> int \<Rightarrow> OrderMinMaxHeap option" where
  "push_down_max_loop m h i mi = do {
     c \<leftarrow> has_children h mi;
     if c then do {
       p \<leftarrow> has_precedence_at h mi i (-1);
       if \<not> p then do {
         g \<leftarrow> is_grandchild_of mi i;
         h' \<leftarrow> (if g then do {
                  h1 \<leftarrow> Heap_swap h mi i;
                  p2 \<leftarrow> has_precedence_at h1 m (get_parent m) (-1);
                  if \<not> p2 then Heap_swap h1 m (get_parent m) else Some h1
                } else Heap_swap h m i);
         mi' \<leftarrow> smallest_descendant h' mi;
         push_down_max_loop m h' mi mi'
       } else Some h
     } else Some h
   }"

definition push_down_max :: "OrderMinMaxHeap \<Rightarrow> int \<Rightarrow> OrderMinMaxHeap option" where
  "push_down_max h m = push_down_max_loop m h m m"

definition push_down :: "OrderMinMaxHeap \<Rightarrow> int \<Rightarrow> OrderMinMaxHeap option" where
  "push_down h m = do {
     c \<leftarrow> has_children h m;
     if c then push_down_min h m else push_down_max h m
   }"

partial_function (option) push_up_min :: "OrderMinMaxHeap \<Rightarrow> int \<Rightarrow> OrderMinMaxHeap option" where
  "push_up_min h i =
     (if shl i 2 \<ge> 0 then do {
        p \<leftarrow> has_precedence_at h i (shl i 2) (-1);
        if p then do {
          h' \<leftarrow> Heap_swap h i (shl i 2);
          push_up_min h' (shl i 2)
        } else Some h
      } else Some h)"

partial_function (option) push_up_max :: "OrderMinMaxHeap \<Rightarrow> int \<Rightarrow> OrderMinMaxHeap option" where
  "push_up_max h mi =
     (if shl mi 2 \<ge> 0 then do {
        p \<leftarrow> has_precedence_at h mi (shl mi 2) (-1);
        if \<not> p then do {
          h' \<leftarrow> Heap_swap h mi (shl mi 2);
          push_up_max h' (shl mi 2)
        } else Some h
      } else Some h)"

definition push_up :: "OrderMinMaxHeap \<Rightarrow> int \<Rightarrow> OrderMinMaxHeap option" where
  "push_up h i =
     (if i \<noteq> 0 then do {
        c \<leftarrow> has_children h i;
        if \<not> c then do {
          p \<leftarrow> has_precedence_at h i (get_parent i) (-1);
          if p then do {
            h' \<leftarrow> Heap_swap h i (get_parent i);
            push_up_max h' (get_parent i)
          } else push_up_min h i
        } else do {
          p \<leftarrow> has_precedence_at h i (get_parent i) (-1);
          if p then do {
            h' \<leftarrow> Heap_swap h i (get_parent i);
            push_up_min h' (get_parent i)
          } else push_up_max h i
        }
      } else Some h)"

definition make_inactive :: "OrderMinMaxHeap \<Rightarrow> int \<Rightarrow> OrderMinMaxHeap option" where
  "make_inactive h i = do {
     h1 \<leftarrow> Heap_swap h i (active_ptr h - 1);
     push_down
       (h1\<lparr>allocated := (allocated h1)(active_ptr h1 - 1 := False),
           active_ptr := active_ptr h1 - 1\<rparr>) 0
   }"

text \<open>The loop of \<^verbatim>\<open>search\<close> runs over the offsets \<open>0 \<dots> matched_ptr - 1\<close>.\<close>

fun search_loop :: "OrderMinMaxHeap \<Rightarrow> nat \<Rightarrow> int list \<Rightarrow> int option" where
  "search_loop h oid [] = Some (-1)"
| "search_loop h oid (d # ds) = do {
     a \<leftarrow> allocated_at h d;
     if a \<and> order_id (data h d) = oid then Some d else search_loop h oid ds
   }"

definition search :: "OrderMinMaxHeap \<Rightarrow> nat \<Rightarrow> int option" where
  "search h oid = search_loop h oid [0..matched_ptr h - 1]"

definition Heap_new :: "order_heap_type_t \<Rightarrow> OrderMinMaxHeap" where
  "Heap_new type =
     \<lparr>data = (\<lambda>_. Order_default), active_ptr = 0, matched_ptr = 0,
      allocated = (\<lambda>_. False), heap_type = type\<rparr>"

definition Heap_insert :: "OrderMinMaxHeap \<Rightarrow> Order \<Rightarrow> (bool \<times> OrderMinMaxHeap) option" where
  "Heap_insert h datum = do {
     h1 \<leftarrow> Heap_swap h (active_ptr h) (matched_ptr h);
     h2 \<leftarrow> push_up
            (h1\<lparr>data := (data h1)(active_ptr h1 := datum),
                allocated := (allocated h1)(active_ptr h1 := True)\<rparr>) (active_ptr h1);
     Some (True, h2\<lparr>active_ptr := active_ptr h2 + 1, matched_ptr := matched_ptr h2 + 1\<rparr>)
   }"

text \<open>
  \<^verbatim>\<open>OrderMinMaxHeap::ammend\<close> is declared \<^verbatim>\<open>bool\<close>: the \<^verbatim>\<open>int\<close> status it computes is
  converted, \<^verbatim>\<open>ACCEPT\<close> to \<^verbatim>\<open>false\<close> and \<^verbatim>\<open>ORDER_DOES_NOT_EXIST\<close> to \<^verbatim>\<open>true\<close>.
\<close>

definition Heap_ammend ::
  "OrderMinMaxHeap \<Rightarrow> nat \<Rightarrow> rat \<Rightarrow> nat \<Rightarrow> (bool \<times> OrderMinMaxHeap) option" where
  "Heap_ammend h oid new_price new_quantity = do {
     i \<leftarrow> search h oid;
     if i \<noteq> -1 then do {
       ord \<leftarrow> data_at h i;
       let o1 = Order_ammend ord new_price new_quantity;
       let o2 = add_execution_history_entry o1
                  (history (get_history_entry o1 (-1))) (get_timestamp o1 (-1))
                  new_price new_quantity;
       h' \<leftarrow> push_down (h\<lparr>data := (data h)(i := o2)\<rparr>) 0;
       Some (ACCEPT \<noteq> 0, h')
     } else Some (ORDER_DOES_NOT_EXIST \<noteq> 0, h)
   }"

definition Heap_cancel :: "OrderMinMaxHeap \<Rightarrow> nat \<Rightarrow> (int \<times> OrderMinMaxHeap) option" where
  "Heap_cancel h oid = do {
     i \<leftarrow> search h oid;
     if i \<noteq> -1 then do {
       ord \<leftarrow> data_at h i;
       let o1 = add_execution_history_entry ord CANCELLED
                  (get_timestamp ord (-1)) (get_price ord (-1)) (get_quantity ord (-1));
       h1 \<leftarrow> make_inactive (h\<lparr>data := (data h)(i := o1)\<rparr>) i;
       h2 \<leftarrow> push_down h1 0;
       Some (ACCEPT, h2)
     } else Some (ORDER_DOES_NOT_EXIST, h)
   }"

text \<open>
  \<^verbatim>\<open>get_max_order\<close> returns a pointer into \<^verbatim>\<open>data\<close> or \<^verbatim>\<open>NULL\<close>; the model returns the order
  pointed to, or \<open>None\<close> for \<^verbatim>\<open>NULL\<close>. It reads the slots 0, 1 and 2 only, which are inside the
  arrays. \<^verbatim>\<open>get_min_order\<close> returns \<^verbatim>\<open>data\<close>, the address of slot 0, whatever the slot holds.
\<close>

definition get_max_order :: "OrderMinMaxHeap \<Rightarrow> Order option" where
  "get_max_order h =
     (if \<not> allocated h 0 then None
      else if \<not> allocated h 1
              \<or> (has_precedence (data h 0) (data h 1) (-1)
                  \<and> (\<not> allocated h 2 \<or> has_precedence (data h 0) (data h 2) (-1)))
           then Some (data h 0)
      else if \<not> allocated h 2 \<or> has_precedence (data h 1) (data h 2) (-1)
           then Some (data h 1)
      else Some (data h 2))"

definition get_min_order :: "OrderMinMaxHeap \<Rightarrow> Order option" where
  "get_min_order h = Some (data h 0)"

text \<open>
  \<^verbatim>\<open>transact\<close>: \<^verbatim>\<open>get_quantity(t) - deduction\<close> is a \<^verbatim>\<open>float\<close> subtraction, converted to
  \<^verbatim>\<open>int\<close> for \<^verbatim>\<open>abs_diff\<close> and to \<^verbatim>\<open>quantity_t\<close> for the new quantity.
\<close>

definition Heap_transact ::
  "OrderMinMaxHeap \<Rightarrow> nat \<Rightarrow> rat \<Rightarrow> int \<Rightarrow> (bool \<times> OrderMinMaxHeap) option" where
  "Heap_transact h local_id deduction t = do {
     local_i \<leftarrow> search h local_id;
     local \<leftarrow> data_at h local_i;
     abs_diff \<leftarrow> float_to_int (of_nat (get_quantity local t) - deduction);
     if abs_diff \<le> 0 then do {
       h' \<leftarrow> make_inactive
              (h\<lparr>data := (data h)(local_i := Order_transact local t (get_price local t) 0)\<rparr>)
              local_i;
       Some (True, h')
     } else do {
       q \<leftarrow> float_to_uint64 (of_nat (get_quantity local t) - deduction);
       Some (True,
         h\<lparr>data := (data h)(local_i := Order_transact local t (get_price local t) q)\<rparr>)
     }
   }"

declare is_grandchild_loop.simps [code]
declare push_down_min_loop.simps [code]
declare push_down_max_loop.simps [code]
declare push_up_min.simps [code]
declare push_up_max.simps [code]

subsection \<open>get_max_n_orders\<close>

text \<open>
  The local arrays \<^verbatim>\<open>stack\<close> and \<^verbatim>\<open>t_stack\<close> (\<^verbatim>\<open>new Order[n]\<close>, default-constructed orders)
  and the caller's \<^verbatim>\<open>output\<close> array are lists of length \<open>n\<close>, read and written through
  bounds-checked accessors. The pointers \<^verbatim>\<open>a\<close> and \<^verbatim>\<open>b\<close> are offsets into \<^verbatim>\<open>stack\<close> and
  \<^verbatim>\<open>t_stack\<close>.
\<close>

definition array_read :: "Order list \<Rightarrow> int \<Rightarrow> Order option" where
  "array_read xs i = (if 0 \<le> i \<and> i < int (length xs) then Some (xs ! nat i) else None)"

definition array_write :: "Order list \<Rightarrow> int \<Rightarrow> Order \<Rightarrow> Order list option" where
  "array_write xs i v = (if 0 \<le> i \<and> i < int (length xs) then Some (xs[nat i := v]) else None)"

text \<open>"Place until insertion": returns \<open>(t_stack, stack_i, a, b)\<close>.\<close>

function place_until ::
  "int \<Rightarrow> Order \<Rightarrow> Order list \<Rightarrow> int \<Rightarrow> int \<Rightarrow> Order list \<Rightarrow> int \<Rightarrow> int
   \<Rightarrow> (Order list \<times> int \<times> int \<times> int) option" where
  "place_until t d stack n stack_i t_stack a b =
     (if a \<le> stack_i then do {
        ins \<leftarrow> (if a = stack_i \<and> stack_i < n then Some True
                else do { x \<leftarrow> array_read stack a; Some (has_precedence d x t) });
        if ins then do {
          ts \<leftarrow> array_write t_stack b d;
          Some (ts, stack_i + 1, a, b + 1)
        } else do {
          x \<leftarrow> array_read stack a;
          ts \<leftarrow> array_write t_stack b x;
          place_until t d stack n stack_i ts (a + 1) (b + 1)
        }
      } else Some (t_stack, stack_i, a, b))"
  by pat_completeness auto
termination
  by (relation "measure (\<lambda>(t, d, stack, n, stack_i, t_stack, a, b). nat (stack_i + 1 - a))") auto

text \<open>"Place after insertion till finished".\<close>

function place_rest ::
  "Order list \<Rightarrow> int \<Rightarrow> Order list \<Rightarrow> int \<Rightarrow> int \<Rightarrow> Order list option" where
  "place_rest stack stack_i t_stack a b =
     (if b < stack_i then do {
        x \<leftarrow> array_read stack a;
        ts \<leftarrow> array_write t_stack b x;
        place_rest stack stack_i ts (a + 1) (b + 1)
      } else Some t_stack)"
  by pat_completeness auto
termination
  by (relation "measure (\<lambda>(stack, stack_i, t_stack, a, b). nat (stack_i - b))") auto

text \<open>\<^verbatim>\<open>for (int i = 0; i < stack_i; i++) *(dst + i) = *(src + i);\<close>\<close>

fun copy_loop :: "Order list \<Rightarrow> Order list \<Rightarrow> int list \<Rightarrow> Order list option" where
  "copy_loop dst src [] = Some dst"
| "copy_loop dst src (i # is) = do {
     x \<leftarrow> array_read src i;
     dst' \<leftarrow> array_write dst i x;
     copy_loop dst' src is
   }"

fun max_n_loop ::
  "OrderMinMaxHeap \<Rightarrow> int \<Rightarrow> int \<Rightarrow> Order list \<Rightarrow> int \<Rightarrow> int list
   \<Rightarrow> (Order list \<times> int) option" where
  "max_n_loop h t n stack stack_i [] = Some (stack, stack_i)"
| "max_n_loop h t n stack stack_i (di # ds) = do {
     d \<leftarrow> data_at h di;
     if \<not> active_at d t then max_n_loop h t n stack stack_i ds
     else do {
       enter \<leftarrow> (if stack_i < n then Some True
                  else do { x \<leftarrow> array_read stack (n - 1); Some (has_precedence x d t) });
       (t_stack, stack_i') \<leftarrow>
          (if enter then do {
             (ts, si, a, b) \<leftarrow>
                place_until t d stack n stack_i (replicate (nat n) Order_default) 0 0;
             ts' \<leftarrow> place_rest stack si ts a b;
             Some (ts', si)
           } else Some (replicate (nat n) Order_default, stack_i));
       stack' \<leftarrow> copy_loop stack t_stack [0..stack_i' - 1];
       max_n_loop h t n stack' stack_i' ds
     }
   }"

text \<open>
  The result is the filled prefix \<^verbatim>\<open>output[0 .. stack_i)\<close>; its length is the \<^verbatim>\<open>int\<close> the
  source returns. The method is \<^verbatim>\<open>const\<close>: the heap is only read.
\<close>

definition get_max_n_orders :: "OrderMinMaxHeap \<Rightarrow> int \<Rightarrow> int \<Rightarrow> Order list option" where
  "get_max_n_orders h t n = do {
     (stack, stack_i) \<leftarrow>
        max_n_loop h t n (replicate (nat n) Order_default) 0 [0..matched_ptr h - 1];
     output \<leftarrow> copy_loop (replicate (nat n) Order_default) stack [0..stack_i - 1];
     Some (take (nat stack_i) output)
   }"

section \<open>OrderEntry: the two heaps of one symbol\<close>

text \<open>
  \<^verbatim>\<open>next_entry\<close> is set to \<^verbatim>\<open>NULL\<close> by the constructor and never assigned again (the class
  has no setter), so it is not a field of the model: a hash bucket holds at most one entry.
\<close>

record OrderEntry =
  symbol :: string
  buys :: OrderMinMaxHeap
  sells :: OrderMinMaxHeap

definition Entry_new :: "string \<Rightarrow> OrderEntry" where
  "Entry_new s = \<lparr>symbol = s, buys = Heap_new BUY_HEAP, sells = Heap_new SELL_HEAP\<rparr>"

definition Entry_add :: "OrderEntry \<Rightarrow> Order \<Rightarrow> side_t \<Rightarrow> (bool \<times> OrderEntry) option" where
  "Entry_add e ord s =
     (case s of
        BUY \<Rightarrow> do { (_, h) \<leftarrow> Heap_insert (buys e) ord; Some (True, e\<lparr>buys := h\<rparr>) }
      | SELL \<Rightarrow> do { (_, h) \<leftarrow> Heap_insert (sells e) ord; Some (True, e\<lparr>sells := h\<rparr>) })"

definition Entry_ammend ::
  "OrderEntry \<Rightarrow> side_t \<Rightarrow> nat \<Rightarrow> rat \<Rightarrow> nat \<Rightarrow> (bool \<times> OrderEntry) option" where
  "Entry_ammend e s oid p q =
     (case s of
        BUY \<Rightarrow> do { (_, h) \<leftarrow> Heap_ammend (buys e) oid p q; Some (True, e\<lparr>buys := h\<rparr>) }
      | SELL \<Rightarrow> do { (_, h) \<leftarrow> Heap_ammend (sells e) oid p q; Some (True, e\<lparr>sells := h\<rparr>) })"

definition Entry_cancel :: "OrderEntry \<Rightarrow> nat \<Rightarrow> side_t \<Rightarrow> (int \<times> OrderEntry) option" where
  "Entry_cancel e oid s =
     (case s of
        BUY \<Rightarrow> do { (_, h) \<leftarrow> Heap_cancel (buys e) oid; Some (ACCEPT, e\<lparr>buys := h\<rparr>) }
      | SELL \<Rightarrow> do { (_, h) \<leftarrow> Heap_cancel (sells e) oid; Some (ACCEPT, e\<lparr>sells := h\<rparr>) })"

text \<open>
  What the program prints, as events. \<open>Trade\<close> carries the fields of the line printed by
  \<^verbatim>\<open>OrderEntry::match\<close>, in print order: symbol, buy id, buy type, buy quantity, buy price,
  sell price, sell quantity, sell type, sell id. \<open>SnapshotRow\<close> is one line of
  \<^verbatim>\<open>OrderEntry::query\<close>.
\<close>

datatype event =
    Accept nat
  | Reject nat int
  | AmmendAccept nat
  | AmmendReject nat int
  | CancelAccept nat
  | CancelReject nat int
  | Trade string nat order_type_t nat rat rat nat order_type_t nat
  | SnapshotRow string "(nat \<times> order_type_t \<times> nat \<times> rat) option"
      "(rat \<times> nat \<times> order_type_t \<times> nat) option"

text \<open>
  One pass through the body of \<^verbatim>\<open>while (true)\<close> in \<^verbatim>\<open>OrderEntry::match\<close>. The \<open>bool\<close> is
  \<open>True\<close> when the loop goes round again and \<open>False\<close> at a \<^verbatim>\<open>break\<close>.
\<close>

definition match_iteration ::
  "OrderEntry \<Rightarrow> int \<Rightarrow> (bool \<times> event list \<times> OrderEntry) option" where
  "match_iteration e t =
     (case (get_max_order (buys e), get_min_order (sells e)) of
        (Some best_buy, Some best_sell) \<Rightarrow>
          (let b_price = get_price best_buy (-1);
               b_oi = order_id best_buy;
               b_quantity = get_quantity best_buy (-1);
               b_t = order_type best_buy;
               s_price = get_price best_sell (-1);
               s_oi = order_id best_sell;
               s_quantity = get_quantity best_sell (-1);
               s_t = order_type best_sell
           in if history (get_history_entry best_buy (-1)) \<noteq> EXECUTED
                 \<and> history (get_history_entry best_sell (-1)) \<noteq> EXECUTED
                 \<and> b_price \<ge> s_price
              then do {
                (_, hb) \<leftarrow> Heap_transact (buys e) b_oi b_price t;
                (_, hs) \<leftarrow> Heap_transact (sells e) s_oi b_price t;
                Some (True,
                      [Trade (symbol e) b_oi b_t b_quantity b_price s_price s_quantity s_t s_oi],
                      e\<lparr>buys := hb, sells := hs\<rparr>)
              } else Some (False, [], e))
      | _ \<Rightarrow> Some (False, [], e))"

text \<open>
  The matching loop may run for ever, so it is a \<^theory_text>\<open>partial_function\<close>: \<open>None\<close> means that
  \<^verbatim>\<open>OrderEntry::match\<close> never returns. An iteration without a defined result ends the loop
  with \<open>Some Undefined\<close>, so that the two are told apart.
\<close>

datatype 'a outcome = Undefined | Returns 'a

partial_function (option) match_loop ::
  "OrderEntry \<Rightarrow> int \<Rightarrow> event list \<Rightarrow> (int \<times> event list \<times> OrderEntry) outcome option" where
  "match_loop e t out =
     (case match_iteration e t of
        None \<Rightarrow> Some Undefined
      | Some (again, ev, e') \<Rightarrow>
          if again then match_loop e' t (out @ ev)
          else Some (Returns (ACCEPT, out @ ev, e')))"

declare match_loop.simps [code]

definition Entry_match ::
  "OrderEntry \<Rightarrow> int \<Rightarrow> (int \<times> event list \<times> OrderEntry) outcome option" where
  "Entry_match e t = match_loop e t []"

definition Entry_query :: "OrderEntry \<Rightarrow> int \<Rightarrow> (int \<times> event list) option" where
  "Entry_query e t = do {
     top_buys \<leftarrow> get_max_n_orders (buys e) t 5;
     min_sells \<leftarrow> get_max_n_orders (sells e) t 5;
     let num_buys = length top_buys;
     let num_sells = length min_sells;
     let num_to_display = (if num_buys > num_sells then num_buys else num_sells);
     Some (ACCEPT,
       map (\<lambda>i. SnapshotRow (symbol e)
                  (if i < num_buys
                   then Some (order_id (top_buys ! i), order_type (top_buys ! i),
                              get_quantity (top_buys ! i) t, get_price (top_buys ! i) t)
                   else None)
                  (if i < num_sells
                   then Some (get_price (min_sells ! i) t, get_quantity (min_sells ! i) t,
                              order_type (min_sells ! i), order_id (min_sells ! i))
                   else None))
           [0..<num_to_display])
   }"

section \<open>Command and OrderBook\<close>

datatype command_format_t =
    F_NEW | F_AMMEND | F_MATCH_TIMESTAMP | F_MATCH_TIMESTAMP_SYMBOL | F_QUERY
  | F_QUERY_SYMBOL | F_QUERY_TIMESTAMP | F_QUERY_TIMESTAMP_SYMBOL | F_QUERY_SYMBOL_TIMESTAMP

text \<open>The fields of \<^verbatim>\<open>class Command\<close>, prefixed with \<open>c_\<close>.\<close>

record Command =
  c_format :: command_format_t
  c_order_action :: action_t
  c_order_id :: nat
  c_timestamp :: int
  c_symbol :: string
  c_side :: side_t
  c_order_type :: order_type_t
  c_price :: rat
  c_quantity :: nat

text \<open>
  \<^verbatim>\<open>table\<close> and \<^verbatim>\<open>cache_order_to_symbol\<close> are arrays of \<^verbatim>\<open>NUM_TOTAL_SYMBOLS_IN_ORDER_BOOK\<close>
  pointers, indexed by a hash value, which is always inside the array. A bucket of \<^verbatim>\<open>table\<close>
  is \<open>None\<close> for \<^verbatim>\<open>NULL\<close>. A bucket of \<^verbatim>\<open>cache_order_to_symbol\<close> is the chain of its
  \<^verbatim>\<open>hash_order_to_symbol\<close> nodes \<open>(oi, symbol)\<close>, \<open>[]\<close> for \<^verbatim>\<open>NULL\<close>.
  \<^verbatim>\<open>cache_list_sorted_symbol_names\<close> is the linked list of symbol names.
\<close>

record OrderBook =
  table :: "int \<Rightarrow> OrderEntry option"
  timestamp :: int
  cache_order_to_symbol :: "int \<Rightarrow> (nat \<times> string) list"
  cache_list_sorted_symbol_names :: "string list"

text \<open>\<^verbatim>\<open>unsigned int\<close> arithmetic wraps at \<open>2^32\<close>.\<close>

definition hash :: "int \<Rightarrow> int" where
  "hash x = ((1279 * x + 2203) mod 4294967296) mod NUM_TOTAL_SYMBOLS_IN_ORDER_BOOK"

fun hash_loop :: "int \<Rightarrow> string \<Rightarrow> int" where
  "hash_loop int_repr [] = int_repr"
| "hash_loop int_repr (xi # x) =
     hash_loop ((int_repr * 26 mod 4294967296 + (of_char xi - 97)) mod 4294967296) x"

definition hash_symbol :: "string \<Rightarrow> int" where
  "hash_symbol x = hash (hash_loop 0 x)"

text \<open>\<^verbatim>\<open>strcmp\<close>: the sign of the result is that of the first differing byte.\<close>

fun strcmp :: "string \<Rightarrow> string \<Rightarrow> int" where
  "strcmp [] [] = 0"
| "strcmp [] (b # bs) = - of_char b"
| "strcmp (a # as) [] = of_char a"
| "strcmp (a # as) (b # bs) = (if a = b then strcmp as bs else of_char a - of_char b)"

text \<open>
  The last branch of \<^verbatim>\<open>OrderBook::insert\<close>: \<open>s\<close> is the node \<^verbatim>\<open>snl\<close>, the list its
  \<^verbatim>\<open>next\<close> chain. The new node is linked in after the node the loop stops at.
\<close>

fun insert_after :: "string \<Rightarrow> string \<Rightarrow> string list \<Rightarrow> string list" where
  "insert_after key s [] = [s, key]"
| "insert_after key s (s' # rest) =
     (if strcmp s key < 0 then s # insert_after key s' rest else s # key # s' # rest)"

definition Book_insert :: "OrderBook \<Rightarrow> string \<Rightarrow> bool \<times> OrderBook" where
  "Book_insert ob key =
     (True,
      ob\<lparr>table := (table ob)(hash_symbol key := Some (Entry_new key)),
         cache_list_sorted_symbol_names :=
           (case cache_list_sorted_symbol_names ob of
              [] \<Rightarrow> [key]
            | s # rest \<Rightarrow>
                if strcmp s key \<ge> 0 then key # s # rest else insert_after key s rest)\<rparr>)"

text \<open>
  \<^verbatim>\<open>lookup\<close>: the loop over \<^verbatim>\<open>get_next_entry()\<close> never runs, since \<^verbatim>\<open>next_entry\<close> is always
  \<^verbatim>\<open>NULL\<close>; the result is the bucket's entry, whose symbol is not compared with the key.
\<close>

definition lookup :: "OrderBook \<Rightarrow> string \<Rightarrow> OrderEntry option" where
  "lookup ob key = table ob (hash_symbol key)"

definition Book_new :: OrderBook where
  "Book_new =
     \<lparr>table = (\<lambda>_. None), timestamp = 0, cache_order_to_symbol = (\<lambda>_. []),
      cache_list_sorted_symbol_names = []\<rparr>"

text \<open>
  \<^verbatim>\<open>add_new_order\<close> is declared \<^verbatim>\<open>bool\<close>: the status is returned as \<open>status \<noteq> 0\<close>.
\<close>

definition add_new_order :: "OrderBook \<Rightarrow> Command \<Rightarrow> (bool \<times> OrderBook) option" where
  "add_new_order ob c =
     (if c_timestamp c < timestamp ob then Some (INVALID_ORDER_DETAILS \<noteq> 0, ob)
      else do {
        let ob1 = (case lookup ob (c_symbol c) of
                     None \<Rightarrow> snd (Book_insert ob (c_symbol c))
                   | Some _ \<Rightarrow> ob);
        oe \<leftarrow> lookup ob1 (c_symbol c);
        let datum = Order_new (c_order_id c) (c_order_type c) (c_timestamp c)
                      (c_price c) (c_quantity c);
        let h = hash (int (c_order_id c) mod 4294967296);
        let ob2 = ob1\<lparr>cache_order_to_symbol :=
                    (cache_order_to_symbol ob1)
                      (h := cache_order_to_symbol ob1 h @ [(c_order_id c, c_symbol c)])\<rparr>;
        (_, oe') \<leftarrow> Entry_add oe datum (c_side c);
        Some (ACCEPT \<noteq> 0,
              ob2\<lparr>table := (table ob2)(hash_symbol (c_symbol c) := Some oe'),
                  timestamp := c_timestamp c\<rparr>)
      })"

text \<open>
  \<^verbatim>\<open>ammend_order\<close>: \<^verbatim>\<open>status = oe->ammend(...)\<close> stores a \<^verbatim>\<open>bool\<close> in the \<^verbatim>\<open>int\<close> status.
\<close>

definition ammend_order :: "OrderBook \<Rightarrow> Command \<Rightarrow> (int \<times> OrderBook) option" where
  "ammend_order ob c =
     (let oe = lookup ob (c_symbol c)
      in if c_timestamp c < timestamp ob then Some (INVALID_ORDER_DETAILS, ob)
         else (case oe of
                 Some e \<Rightarrow> do {
                   (r, e') \<leftarrow> Entry_ammend e (c_side c) (c_order_id c) (c_price c) (c_quantity c);
                   Some (if r then 1 else 0,
                         ob\<lparr>table := (table ob)(hash_symbol (c_symbol c) := Some e')\<rparr>)
                 }
               | None \<Rightarrow> Some (ORDER_DOES_NOT_EXIST, ob)))"

text \<open>
  \<^verbatim>\<open>cancel_order\<close>: \<^verbatim>\<open>cache_order_to_symbol[h]->symbol\<close> dereferences the bucket's first node
  without a test, and reads that node's symbol without comparing its \<^verbatim>\<open>oi\<close>. The symbol of
  a node is a \<^verbatim>\<open>_strdup\<close> result, so \<^verbatim>\<open>s\<close> is not \<^verbatim>\<open>NULL\<close>.
\<close>

definition cancel_order :: "OrderBook \<Rightarrow> Command \<Rightarrow> (int \<times> OrderBook) option" where
  "cancel_order ob c =
     (if c_timestamp c < timestamp ob then Some (INVALID_ORDER_DETAILS, ob)
      else (case cache_order_to_symbol ob (hash (int (c_order_id c) mod 4294967296)) of
              [] \<Rightarrow> None
            | (oi, s) # rest \<Rightarrow>
                (case lookup ob s of
                   Some oe \<Rightarrow> do {
                     (status, oe') \<leftarrow> Entry_cancel oe (c_order_id c) (c_side c);
                     Some (status,
                           ob\<lparr>table := (table ob)(hash_symbol s := Some oe'),
                               timestamp := c_timestamp c\<rparr>)
                   }
                 | None \<Rightarrow> Some (ORDER_DOES_NOT_EXIST, ob\<lparr>timestamp := c_timestamp c\<rparr>))))"

text \<open>
  The loop of \<^verbatim>\<open>OrderBook::match\<close> over the buckets of \<^verbatim>\<open>table\<close>, in index order; each
  bucket holds at most one entry.
\<close>

fun match_buckets ::
  "int \<Rightarrow> (int \<Rightarrow> OrderEntry option) \<Rightarrow> int list \<Rightarrow> event list
   \<Rightarrow> (event list \<times> (int \<Rightarrow> OrderEntry option)) outcome option" where
  "match_buckets t tbl [] out = Some (Returns (out, tbl))"
| "match_buckets t tbl (te # tes) out =
     (case tbl te of
        None \<Rightarrow> match_buckets t tbl tes out
      | Some e \<Rightarrow>
          (case Entry_match e t of
             None \<Rightarrow> None
           | Some Undefined \<Rightarrow> Some Undefined
           | Some (Returns (status, ev, e')) \<Rightarrow>
               match_buckets t (tbl(te := Some e')) tes (out @ ev)))"

definition Book_match ::
  "OrderBook \<Rightarrow> Command \<Rightarrow> (int \<times> event list \<times> OrderBook) outcome option" where
  "Book_match ob c =
     (if c_timestamp c < timestamp ob then Some (Returns (INVALID_ORDER_DETAILS, [], ob))
      else (case c_format c of
              F_MATCH_TIMESTAMP \<Rightarrow>
                (case match_buckets (c_timestamp c) (table ob)
                        [0..NUM_TOTAL_SYMBOLS_IN_ORDER_BOOK - 1] [] of
                   None \<Rightarrow> None
                 | Some Undefined \<Rightarrow> Some Undefined
                 | Some (Returns (ev, tbl)) \<Rightarrow>
                     Some (Returns (ACCEPT, ev, ob\<lparr>table := tbl, timestamp := c_timestamp c\<rparr>)))
            | F_MATCH_TIMESTAMP_SYMBOL \<Rightarrow>
                (case lookup ob (c_symbol c) of
                   None \<Rightarrow> Some Undefined
                 | Some e \<Rightarrow>
                     (case Entry_match e (c_timestamp c) of
                        None \<Rightarrow> None
                      | Some Undefined \<Rightarrow> Some Undefined
                      | Some (Returns (status, ev, e')) \<Rightarrow>
                          Some (Returns (ACCEPT, ev,
                            ob\<lparr>table := (table ob)(hash_symbol (c_symbol c) := Some e'),
                                timestamp := c_timestamp c\<rparr>))))
            | _ \<Rightarrow> Some (Returns (ACCEPT, [], ob\<lparr>timestamp := c_timestamp c\<rparr>))))"

text \<open>
  \<^verbatim>\<open>OrderBook::query\<close> and the functions it calls only read the book (\<^verbatim>\<open>get_max_n_orders\<close> is
  \<^verbatim>\<open>const\<close> and works on copies), so the model returns the status and the rows printed.
  \<^verbatim>\<open>entry->query()\<close> on a \<^verbatim>\<open>NULL\<close> entry has no defined result.
\<close>

fun query_symbols :: "OrderBook \<Rightarrow> int \<Rightarrow> string list \<Rightarrow> event list option" where
  "query_symbols ob t [] = Some []"
| "query_symbols ob t (snl # rest) = do {
     entry \<leftarrow> lookup ob snl;
     (_, rows) \<leftarrow> Entry_query entry t;
     more \<leftarrow> query_symbols ob t rest;
     Some (rows @ more)
   }"

definition Book_query :: "OrderBook \<Rightarrow> Command \<Rightarrow> (int \<times> event list) option" where
  "Book_query ob c =
     (case c_format c of
        F_QUERY \<Rightarrow> do {
          rows \<leftarrow> query_symbols ob (-1) (cache_list_sorted_symbol_names ob);
          Some (ACCEPT, rows) }
      | F_QUERY_SYMBOL \<Rightarrow> do {
          entry \<leftarrow> lookup ob (c_symbol c);
          (_, rows) \<leftarrow> Entry_query entry (-1);
          Some (ACCEPT, rows) }
      | F_QUERY_TIMESTAMP \<Rightarrow> do {
          rows \<leftarrow> query_symbols ob (c_timestamp c) (cache_list_sorted_symbol_names ob);
          Some (ACCEPT, rows) }
      | F_QUERY_SYMBOL_TIMESTAMP \<Rightarrow> do {
          entry \<leftarrow> lookup ob (c_symbol c);
          (_, rows) \<leftarrow> Entry_query entry (c_timestamp c);
          Some (ACCEPT, rows) }
      | F_QUERY_TIMESTAMP_SYMBOL \<Rightarrow> do {
          entry \<leftarrow> lookup ob (c_symbol c);
          (_, rows) \<leftarrow> Entry_query entry (c_timestamp c);
          Some (ACCEPT, rows) }
      | _ \<Rightarrow> Some (ACCEPT, []))"

section \<open>The driver: interpret_order\<close>

text \<open>
  \<^verbatim>\<open>interpret_order\<close> calls the operation of the command's action on the book and prints a
  line chosen by a \<^verbatim>\<open>switch\<close> on the returned status; a status without a \<^verbatim>\<open>case\<close> prints
  nothing. The result is the lines printed and the book afterwards.
\<close>

definition lift_outcome :: "'a option \<Rightarrow> 'a outcome option" where
  "lift_outcome r = (case r of None \<Rightarrow> Some Undefined | Some x \<Rightarrow> Some (Returns x))"

definition interpret_order ::
  "OrderBook \<Rightarrow> Command \<Rightarrow> (event list \<times> OrderBook) outcome option" where
  "interpret_order ob c =
     (case c_order_action c of
        NEW \<Rightarrow> lift_outcome (do {
          (r, ob') \<leftarrow> add_new_order ob c;
          let status = (if r then 1 else 0 :: int);
          Some (if status = ACCEPT then [Accept (c_order_id c)]
                else if status = INVALID_ORDER_DETAILS
                then [Reject (c_order_id c) INVALID_ORDER_DETAILS]
                else [], ob') })
      | AMEND \<Rightarrow> lift_outcome (do {
          (status, ob') \<leftarrow> ammend_order ob c;
          Some (if status = ACCEPT then [AmmendAccept (c_order_id c)]
                else if status = INVALID_AMMENDMENT_DETAILS
                then [AmmendReject (c_order_id c) INVALID_AMMENDMENT_DETAILS]
                else if status = ORDER_DOES_NOT_EXIST
                then [AmmendReject (c_order_id c) ORDER_DOES_NOT_EXIST]
                else [], ob') })
      | CANCEL \<Rightarrow> lift_outcome (do {
          (status, ob') \<leftarrow> cancel_order ob c;
          Some (if status = ACCEPT then [CancelAccept (c_order_id c)]
                else if status = ORDER_DOES_NOT_EXIST
                then [CancelReject (c_order_id c) ORDER_DOES_NOT_EXIST]
                else [], ob') })
      | MATCH \<Rightarrow>
          (case Book_match ob c of
             None \<Rightarrow> None
           | Some Undefined \<Rightarrow> Some Undefined
           | Some (Returns (status, ev, ob')) \<Rightarrow> Some (Returns (ev, ob')))
      | QUERY \<Rightarrow> lift_outcome (do {
          (status, rows) \<leftarrow> Book_query ob c;
          Some (rows, ob) }))"

text \<open>
  The loop of \<^verbatim>\<open>interpret_orders\<close> over commands already parsed: each command is
  interpreted on the book the previous one left, and the printed lines are appended.
\<close>

fun interpret_orders ::
  "OrderBook \<Rightarrow> Command list \<Rightarrow> event list \<Rightarrow> (event list \<times> OrderBook) outcome option" where
  "interpret_orders ob [] out = Some (Returns (out, ob))"
| "interpret_orders ob (c # cs) out =
     (case interpret_order ob c of
        None \<Rightarrow> None
      | Some Undefined \<Rightarrow> Some Undefined
      | Some (Returns (ev, ob')) \<Rightarrow> interpret_orders ob' cs (out @ ev))"

section \<open>Commands as the parser builds them\<close>

text \<open>
  \<^verbatim>\<open>match_command\<close> fills a \<^verbatim>\<open>Command\<close> per input line. A cancel line carries no symbol, side,
  type, price or quantity: the parser passes \<^verbatim>\<open>""\<close>, \<^verbatim>\<open>BUY\<close>, \<^verbatim>\<open>LIMIT\<close>, 0 and 0. The
  \<^verbatim>\<open>format\<close> field is assigned for match and query lines only; the other commands never
  read it.
\<close>

definition cmd_new ::
  "nat \<Rightarrow> int \<Rightarrow> string \<Rightarrow> order_type_t \<Rightarrow> side_t \<Rightarrow> rat \<Rightarrow> nat \<Rightarrow> Command" where
  "cmd_new oid t s ot si p q =
     \<lparr>c_format = F_NEW, c_order_action = NEW, c_order_id = oid, c_timestamp = t,
      c_symbol = s, c_side = si, c_order_type = ot, c_price = p, c_quantity = q\<rparr>"

definition cmd_amend ::
  "nat \<Rightarrow> int \<Rightarrow> string \<Rightarrow> order_type_t \<Rightarrow> side_t \<Rightarrow> rat \<Rightarrow> nat \<Rightarrow> Command" where
  "cmd_amend oid t s ot si p q =
     \<lparr>c_format = F_AMMEND, c_order_action = AMEND, c_order_id = oid, c_timestamp = t,
      c_symbol = s, c_side = si, c_order_type = ot, c_price = p, c_quantity = q\<rparr>"

definition cmd_cancel :: "nat \<Rightarrow> int \<Rightarrow> Command" where
  "cmd_cancel oid t =
     \<lparr>c_format = F_NEW, c_order_action = CANCEL, c_order_id = oid, c_timestamp = t,
      c_symbol = [], c_side = BUY, c_order_type = LIMIT, c_price = 0, c_quantity = 0\<rparr>"

definition cmd_match_symbol :: "int \<Rightarrow> string \<Rightarrow> Command" where
  "cmd_match_symbol t s =
     \<lparr>c_format = F_MATCH_TIMESTAMP_SYMBOL, c_order_action = MATCH, c_order_id = 0,
      c_timestamp = t, c_symbol = s, c_side = BUY, c_order_type = LIMIT, c_price = 0,
      c_quantity = 0\<rparr>"

definition cmd_query :: "command_format_t \<Rightarrow> int \<Rightarrow> string \<Rightarrow> Command" where
  "cmd_query f t s =
     \<lparr>c_format = f, c_order_action = QUERY, c_order_id = 0, c_timestamp = t,
      c_symbol = s, c_side = BUY, c_order_type = LIMIT, c_price = 0, c_quantity = 0\<rparr>"

text \<open>The book a list of commands leaves behind, when they all return.\<close>

definition book_after :: "Command list \<Rightarrow> OrderBook option" where
  "book_after cs =
     (case interpret_orders Book_new cs [] of
        Some (Returns (ev, ob)) \<Rightarrow> Some ob
      | _ \<Rightarrow> None)"

text \<open>Inserting a list of orders into a heap, in order.\<close>

fun insert_all :: "OrderMinMaxHeap \<Rightarrow> Order list \<Rightarrow> OrderMinMaxHeap option" where
  "insert_all h [] = Some h"
| "insert_all h (x # xs) = do { (_, h') \<leftarrow> Heap_insert h x; insert_all h' xs }"

text \<open>The book after the single line \<^verbatim>\<open>N,1,5,AB,L,B,10,5\<close>; its \<^verbatim>\<open>timestamp\<close> is 5.\<close>

definition book_t5 :: OrderBook where
  "book_t5 = the (book_after [cmd_new 1 5 ''AB'' LIMIT BUY 10 5])"

section \<open>Orders the program can hold\<close>

text \<open>
  An order starts with the record its constructor writes, at a timestamp the parser read
  (\<^verbatim>\<open>match_timestamp\<close> builds it from decimal digits, so it is not negative), and every
  later change of it (\<^verbatim>\<open>transact\<close>, \<^verbatim>\<open>ammend\<close>, the record written by \<^verbatim>\<open>cancel\<close>) is a call of
  \<^verbatim>\<open>add_execution_history_entry\<close>.
\<close>

inductive admitted :: "Order \<Rightarrow> bool" where
  created: "0 \<le> t \<Longrightarrow> admitted (Order_new oid ot t p q)"
| altered: "admitted ord \<Longrightarrow> admitted (add_execution_history_entry ord h d p q)"

code_pred admitted .

text \<open>
  In the words of the specification: the records of an order whose timestamp is at most
  \<open>t\<close> and is the largest such timestamp, in the order of the history.
\<close>

definition latest_records :: "Order \<Rightarrow> int \<Rightarrow> (execution_status_t \<times> int \<times> rat \<times> nat) list" where
  "latest_records ord t =
     [r \<leftarrow> records ord.
        fst (snd r) \<le> t \<and> (\<forall>r' \<in> set (records ord). fst (snd r') \<le> t \<longrightarrow> fst (snd r') \<le> fst (snd r))]"

text \<open>
  Order 1 as the book holds it after \<^verbatim>\<open>N,1,1,AB,L,B,10,5\<close> and \<^verbatim>\<open>A,1,2,AB,L,B,20,5\<close>:
  created at time 1 at price 10 and amended to price 20.
\<close>

definition order_amended :: Order where
  "order_amended =
     data (buys (the (lookup (the (book_after
       [cmd_new 1 1 ''AB'' LIMIT BUY 10 5, cmd_amend 1 2 ''AB'' LIMIT BUY 20 5])) ''AB''))) 0"

section \<open>Well-formed heaps\<close>

text \<open>
  The layout the class comment describes: every allocated slot lies below \<^verbatim>\<open>active_ptr\<close>,
  and \<^verbatim>\<open>active_ptr\<close> and \<^verbatim>\<open>matched_ptr\<close>, in this order, lie inside the array or at its
  end. \<^verbatim>\<open>insert\<close> and \<^verbatim>\<open>make_inactive\<close> set and clear \<^verbatim>\<open>allocated\<close> only at
  \<^verbatim>\<open>active_ptr\<close> as they move it.
\<close>

definition heap_ok :: "OrderMinMaxHeap \<Rightarrow> bool" where
  "heap_ok h =
     (0 \<le> active_ptr h \<and> active_ptr h \<le> matched_ptr h
      \<and> matched_ptr h \<le> MAX_NUM_ORDERS_IN_HEAP
      \<and> (\<forall>i. allocated h i \<longrightarrow> 0 \<le> i \<and> i < active_ptr h))"

text \<open>The heap \<^verbatim>\<open>OrderEntry::cancel\<close> and \<^verbatim>\<open>OrderEntry::ammend\<close> select by side.\<close>

definition side_heap :: "OrderEntry \<Rightarrow> side_t \<Rightarrow> OrderMinMaxHeap" where
  "side_heap e s = (case s of BUY \<Rightarrow> buys e | SELL \<Rightarrow> sells e)"

text \<open>The book after \<^verbatim>\<open>N,1,1,AB,L,B,10,5\<close> and \<^verbatim>\<open>N,2,2,AB,L,S,30,5\<close>.\<close>

definition book_two_sided :: OrderBook where
  "book_two_sided =
     the (book_after [cmd_new 1 1 ''AB'' LIMIT BUY 10 5, cmd_new 2 2 ''AB'' LIMIT SELL 30 5])"

section \<open>A book whose best buy and best sell are priced at zero\<close>

text \<open>The book after \<^verbatim>\<open>N,1,1,AB,L,B,0,5\<close> and \<^verbatim>\<open>N,2,2,AB,L,S,0,5\<close>.\<close>

definition book_zero :: OrderBook where
  "book_zero =
     the (book_after [cmd_new 1 1 ''AB'' LIMIT BUY 0 5, cmd_new 2 2 ''AB'' LIMIT SELL 0 5])"

text \<open>
  An order at price 0 with quantity left, not executed, and with no record dated after
  \<open>t\<close>; a heap whose only allocated slot among 0 and 1 is slot 0, holding such an order;
  an entry with two such heaps.
\<close>

definition stuck_order :: "int \<Rightarrow> Order \<Rightarrow> bool" where
  "stuck_order t ord =
     (let l = last (entries (order_history ord))
      in list_all (\<lambda>e. date e \<le> t) (entries (order_history ord))
         \<and> price l = 0 \<and> 0 < quantity_remaining l \<and> quantity_remaining l < 2147483648
         \<and> history l \<noteq> EXECUTED)"

definition stuck_heap :: "int \<Rightarrow> OrderMinMaxHeap \<Rightarrow> bool" where
  "stuck_heap t h =
     (allocated h 0 \<and> \<not> allocated h 1 \<and> 1 \<le> matched_ptr h \<and> stuck_order t (data h 0))"

definition stuck_entry :: "int \<Rightarrow> OrderEntry \<Rightarrow> bool" where
  "stuck_entry t e = (stuck_heap t (buys e) \<and> stuck_heap t (sells e))"

section \<open>Evaluation rules\<close>

lemmas error_status_defs =
  ACCEPT_def INVALID_AMMENDMENT_DETAILS_def INVALID_ORDER_DETAILS_def ORDER_DOES_NOT_EXIST_def

lemmas order_eval = get_price_def get_quantity_def get_timestamp_def get_status_def
  get_history_entry_def Order_new_def Order_default_def active_at_def
  add_execution_history_entry_def Order_transact_def Order_ammend_def

lemmas heap_eval = Heap_insert_def Heap_swap_def data_at_def allocated_at_def in_bounds_def
  MAX_NUM_ORDERS_IN_HEAP_def push_up_def push_down_def push_down_min_def push_down_max_def
  has_children_def has_precedence_at_def has_precedence_def
  get_parent_def shl_def int32_def Heap_new_def push_up_min.simps push_up_max.simps
  push_down_min_loop.simps push_down_max_loop.simps make_inactive_def search_def
  Heap_transact_def Heap_cancel_def Heap_ammend_def float_to_int_def float_to_uint64_def
  get_max_order_def get_min_order_def

lemmas entry_eval = Entry_new_def Entry_add_def Entry_ammend_def Entry_cancel_def
  match_iteration_def

lemmas book_eval = add_new_order_def lookup_def Book_insert_def hash_def hash_symbol_def
  NUM_TOTAL_SYMBOLS_IN_ORDER_BOOK_def Book_new_def cancel_order_def ammend_order_def
  Book_query_def Entry_query_def get_max_n_orders_def array_read_def array_write_def
  interpret_order_def lift_outcome_def Book_match_def Entry_match_def
  cmd_new_def cmd_amend_def cmd_cancel_def cmd_match_symbol_def cmd_query_def book_after_def

lemmas all_eval = book_eval heap_eval order_eval entry_eval error_status_defs


section \<open>Facts about alteration histories\<close>

lemma entries_not_Nil: "entries h \<noteq> []"
  by (induction h rule: entries.induct) simp_all

lemma hd_entries: "hd (entries h) = h"
  by (induction h rule: entries.induct) simp_all

text \<open>
  \<^verbatim>\<open>get_history_entry\<close> returns the last node of the longest prefix of the chain whose
  dates are at most \<open>t\<close> (all of it for \<open>t = -1\<close>), and the first node when that prefix is
  empty.
\<close>

lemma history_loop_takeWhile:
  "history_loop t acc (Some h) =
     (case takeWhile (\<lambda>e. t = -1 \<or> date e \<le> t) (entries h) of
        [] \<Rightarrow> acc
      | x # xs \<Rightarrow> last (x # xs))"
proof (induction h arbitrary: acc rule: entries.induct)
  case (1 s d p q)
  then show ?case by simp
next
  case (2 s d p q r)
  show ?case
    by (simp add: "2.IH" split: list.splits)
qed

lemma history_loop_now: "history_loop (-1) acc (Some h) = last (entries h)"
proof -
  have "takeWhile (\<lambda>e. (-1::int) = -1 \<or> date e \<le> -1) (entries h) = entries h"
    by simp
  then show ?thesis
    using entries_not_Nil [of h]
    by (cases "entries h") (simp_all add: history_loop_takeWhile del: takeWhile_eq_all_conv)
qed

lemma get_history_entry_now: "get_history_entry ord (-1) = last (entries (order_history ord))"
  by (simp add: get_history_entry_def history_loop_now)

lemma entries_set_last_next:
  "map record_of (entries (set_last_next h n)) =
     map record_of (entries h) @ map record_of (entries n)"
  by (induction h n rule: set_last_next.induct) (simp_all add: record_of_def)

lemma dates_set_last_next:
  "map date (entries (set_last_next h n)) = map date (entries h) @ map date (entries n)"
  by (induction h n rule: set_last_next.induct) simp_all

lemma date_set_last_next [simp]: "date (set_last_next h n) = date h"
  by (cases "(h, n)" rule: set_last_next.cases) simp_all

lemma last_entries_set_last_next:
  "last (entries (set_last_next h n)) = last (entries n)"
  by (induction h n rule: set_last_next.induct) (simp_all add: entries_not_Nil)

lemma takeWhile_filter_sorted:
  "sorted (map date xs) \<Longrightarrow> takeWhile (\<lambda>e. date e \<le> t) xs = filter (\<lambda>e. date e \<le> t) xs"
proof (induction xs)
  case Nil
  then show ?case by simp
next
  case (Cons x xs)
  then show ?case
    by (fastforce simp: empty_filter_conv)
qed

lemma sorted_le_last: "sorted (xs :: int list) \<Longrightarrow> x \<in> set xs \<Longrightarrow> x \<le> last xs"
  by (induction xs) auto

text \<open>The dates of an order's history never decrease, and the first is not negative.\<close>

lemma admitted_sorted:
  "admitted ord \<Longrightarrow>
     sorted (map date (entries (order_history ord))) \<and> 0 \<le> date (order_history ord)"
proof (induction rule: admitted.induct)
  case (created t oid ot p q)
  then show ?case by (simp add: Order_new_def)
next
  case (altered ord h d p q)
  show ?case
  proof (cases "date (get_history_entry ord (-1)) > d")
    case True
    then show ?thesis using altered.IH by (simp add: add_execution_history_entry_def)
  next
    case False
    then have "last (map date (entries (order_history ord))) \<le> d"
      by (simp add: get_history_entry_now last_map entries_not_Nil)
    then have "\<forall>x \<in> set (map date (entries (order_history ord))). x \<le> d"
      using altered.IH sorted_le_last by fastforce
    then show ?thesis using altered.IH False
      by (simp add: add_execution_history_entry_def dates_set_last_next sorted_append)
  qed
qed

lemma last_filter_stronger:
  "filter P xs \<noteq> [] \<Longrightarrow> P' (last (filter P xs)) \<Longrightarrow> (\<And>x. P' x \<Longrightarrow> P x)
   \<Longrightarrow> last (filter P' xs) = last (filter P xs)"
proof (induction xs rule: rev_induct)
  case Nil
  then show ?case by simp
next
  case (snoc x xs)
  show ?case
  proof (cases "P x")
    case True
    with snoc.prems show ?thesis by simp
  next
    case False
    with snoc.prems have "\<not> P' x" by blast
    with False snoc show ?thesis by simp
  qed
qed

lemma get_history_entry_as_of:
  assumes "admitted ord" and "date (order_history ord) \<le> t"
  shows "filter (\<lambda>e. date e \<le> t) (entries (order_history ord)) \<noteq> []"
    and "get_history_entry ord t =
           last (filter (\<lambda>e. date e \<le> t) (entries (order_history ord)))"
proof -
  let ?es = "entries (order_history ord)"
  from admitted_sorted [OF assms(1)] have srt: "sorted (map date ?es)"
    and nonneg: "0 \<le> date (order_history ord)" by simp_all
  from nonneg assms(2) have t: "t \<noteq> -1" by simp
  have "order_history ord \<in> set ?es"
    using hd_entries [of "order_history ord"] entries_not_Nil [of "order_history ord"]
    by (metis hd_in_set)
  with assms(2) show ne: "filter (\<lambda>e. date e \<le> t) ?es \<noteq> []"
    by (auto simp: filter_empty_conv)
  have "takeWhile (\<lambda>e. t = -1 \<or> date e \<le> t) ?es = filter (\<lambda>e. date e \<le> t) ?es"
    using t takeWhile_filter_sorted [OF srt, of t] by simp
  with ne show "get_history_entry ord t = last (filter (\<lambda>e. date e \<le> t) ?es)"
    by (simp add: get_history_entry_def history_loop_takeWhile split: list.splits)
qed

section \<open>Facts about the heap operations\<close>

text \<open>
  \<^verbatim>\<open>push_down\<close> is only ever called on slot 0, where it changes nothing: the loops of
  \<^verbatim>\<open>push_down_min\<close> and \<^verbatim>\<open>push_down_max\<close> start with \<open>i = mi\<close>, and an order has no
  precedence over itself.
\<close>

lemma shl_0 [simp]: "shl 0 k = 0"
  by (simp add: shl_def int32_def)

lemma has_children_0: "has_children h 0 = Some (allocated h 0)"
  by (simp add: has_children_def allocated_at_def in_bounds_def MAX_NUM_ORDERS_IN_HEAP_def)

lemma has_precedence_at_same: "in_bounds m \<Longrightarrow> has_precedence_at h m m t = Some False"
  by (simp add: has_precedence_at_def data_at_def has_precedence_def)

lemma push_down_0: "push_down h 0 = Some h"
proof (cases "allocated h 0")
  case True
  then show ?thesis
    by (simp add: push_down_def has_children_0 push_down_min_def
        push_down_min_loop.simps [of 0 h 0 0] has_precedence_at_same in_bounds_def
        MAX_NUM_ORDERS_IN_HEAP_def)
next
  case False
  then show ?thesis
    by (simp add: push_down_def has_children_0 push_down_max_def
        push_down_max_loop.simps [of 0 h 0 0])
qed

lemma search_loop_result:
  "\<forall>d \<in> set ds. in_bounds d \<Longrightarrow>
     \<exists>r. search_loop h oid ds = Some r \<and> (r = -1 \<or> (r \<in> set ds \<and> allocated h r))"
  by (induction ds) (auto simp: allocated_at_def)

lemma search_result:
  assumes "matched_ptr h \<le> MAX_NUM_ORDERS_IN_HEAP"
  shows "\<exists>r. search h oid = Some r \<and> (r = -1 \<or> (0 \<le> r \<and> r < matched_ptr h \<and> allocated h r))"
proof -
  have "\<forall>d \<in> set [0..matched_ptr h - 1]. in_bounds d"
    using assms by (auto simp: in_bounds_def)
  from search_loop_result [OF this, of h oid] show ?thesis
    by (auto simp: search_def)
qed

lemma make_inactive_defined:
  assumes "in_bounds i" and "in_bounds (active_ptr h - 1)"
  shows "\<exists>h'. make_inactive h i = Some h'"
  using assms by (simp add: make_inactive_def Heap_swap_def data_at_def push_down_0)

lemma Heap_cancel_defined:
  assumes "heap_ok h"
  shows "\<exists>st h'. Heap_cancel h oid = Some (st, h')"
proof -
  from assms have m: "matched_ptr h \<le> MAX_NUM_ORDERS_IN_HEAP" by (simp add: heap_ok_def)
  from search_result [OF m, of oid] obtain r where
    r: "search h oid = Some r" "r = -1 \<or> (0 \<le> r \<and> r < matched_ptr h \<and> allocated h r)"
    by blast
  show ?thesis
  proof (cases "r = -1")
    case True
    with r show ?thesis by (simp add: Heap_cancel_def)
  next
    case False
    with r have al: "allocated h r" by simp
    with assms have b: "0 \<le> r" "r < active_ptr h" by (auto simp: heap_ok_def)
    with assms have ib: "in_bounds r" "in_bounds (active_ptr h - 1)"
      by (auto simp: heap_ok_def in_bounds_def)
    let ?h1 = "h\<lparr>data := (data h)
      (r := add_execution_history_entry (data h r) CANCELLED (get_timestamp (data h r) (-1))
              (get_price (data h r) (-1)) (get_quantity (data h r) (-1)))\<rparr>"
    have "in_bounds (active_ptr ?h1 - 1)" using ib by simp
    from make_inactive_defined [OF ib(1) this] obtain h' where "make_inactive ?h1 r = Some h'"
      by blast
    with r False ib show ?thesis
      by (simp add: Heap_cancel_def data_at_def Let_def push_down_0)
  qed
qed

lemma Heap_cancel_not_found:
  "search h oid = Some (-1) \<Longrightarrow> Heap_cancel h oid = Some (ORDER_DOES_NOT_EXIST, h)"
  by (simp add: Heap_cancel_def)

lemma Entry_cancel_heap:
  "Entry_cancel e oid s = do { (_, h) \<leftarrow> Heap_cancel (side_heap e s) oid;
      Some (ACCEPT, case s of BUY \<Rightarrow> e\<lparr>buys := h\<rparr> | SELL \<Rightarrow> e\<lparr>sells := h\<rparr>) }"
  by (cases s) (simp_all add: Entry_cancel_def side_heap_def)


text \<open>
  The sift loops only swap orders, so they leave \<^verbatim>\<open>allocated\<close> and the two cursors alone.
  A new heap is well formed, and every heap operation that returns keeps it so.
\<close>

lemma Heap_swap_shape:
  "Heap_swap h a b = Some h' \<Longrightarrow>
     allocated h' = allocated h \<and> active_ptr h' = active_ptr h \<and> matched_ptr h' = matched_ptr h
     \<and> in_bounds a \<and> in_bounds b"
  by (auto simp: Heap_swap_def data_at_def bind_eq_Some_conv split: if_splits)

lemma push_up_min_shape:
  assumes "push_up_min h i = Some h'"
  shows "allocated h' = allocated h \<and> active_ptr h' = active_ptr h
       \<and> matched_ptr h' = matched_ptr h"
proof (rule push_up_min.raw_induct [where P = "\<lambda>h i h'. allocated h' = allocated h
      \<and> active_ptr h' = active_ptr h \<and> matched_ptr h' = matched_ptr h", OF _ assms], goal_cases)
  case (1 loop h i y)
  then show ?case
    by (fastforce simp: bind_eq_Some_conv split: if_splits dest: Heap_swap_shape)
qed

lemma push_up_max_shape:
  assumes "push_up_max h i = Some h'"
  shows "allocated h' = allocated h \<and> active_ptr h' = active_ptr h
       \<and> matched_ptr h' = matched_ptr h"
proof (rule push_up_max.raw_induct [where P = "\<lambda>h i h'. allocated h' = allocated h
      \<and> active_ptr h' = active_ptr h \<and> matched_ptr h' = matched_ptr h", OF _ assms], goal_cases)
  case (1 loop h i y)
  then show ?case
    by (fastforce simp: bind_eq_Some_conv split: if_splits dest: Heap_swap_shape)
qed

lemma push_up_shape:
  assumes "push_up h i = Some h'"
  shows "allocated h' = allocated h \<and> active_ptr h' = active_ptr h
       \<and> matched_ptr h' = matched_ptr h"
  using assms
  by (fastforce simp: push_up_def bind_eq_Some_conv split: if_splits
      dest: Heap_swap_shape push_up_min_shape push_up_max_shape)

lemma heap_ok_new: "heap_ok (Heap_new ty)"
  by (simp add: heap_ok_def Heap_new_def MAX_NUM_ORDERS_IN_HEAP_def)

lemma heap_ok_insert:
  assumes "heap_ok h" and "Heap_insert h ord = Some (r, h')"
  shows "heap_ok h'"
proof -
  from assms(2) obtain h1 h2 where
    s: "Heap_swap h (active_ptr h) (matched_ptr h) = Some h1"
    and u: "push_up (h1\<lparr>data := (data h1)(active_ptr h1 := ord),
                allocated := (allocated h1)(active_ptr h1 := True)\<rparr>) (active_ptr h1) = Some h2"
    and h': "h' = h2\<lparr>active_ptr := active_ptr h2 + 1, matched_ptr := matched_ptr h2 + 1\<rparr>"
    by (auto simp: Heap_insert_def bind_eq_Some_conv)
  from Heap_swap_shape [OF s] push_up_shape [OF u] assms(1) h' show ?thesis
    by (auto simp: heap_ok_def in_bounds_def)
qed

lemma heap_ok_make_inactive:
  assumes "heap_ok h" and "make_inactive h i = Some h'"
  shows "heap_ok h'"
proof -
  from assms(2) obtain h1 where
    s: "Heap_swap h i (active_ptr h - 1) = Some h1"
    and h': "h' = h1\<lparr>allocated := (allocated h1)(active_ptr h1 - 1 := False),
           active_ptr := active_ptr h1 - 1\<rparr>"
    by (auto simp: make_inactive_def bind_eq_Some_conv push_down_0)
  from Heap_swap_shape [OF s] assms(1) h' show ?thesis
    by (fastforce simp: heap_ok_def in_bounds_def)
qed

lemma heap_ok_data: "heap_ok (h\<lparr>data := d\<rparr>) = heap_ok h"
  by (simp add: heap_ok_def)

lemma heap_ok_cancel:
  assumes "heap_ok h" and "Heap_cancel h oid = Some (st, h')"
  shows "heap_ok h'"
  using assms
  by (auto simp: Heap_cancel_def bind_eq_Some_conv push_down_0 Let_def heap_ok_data
      split: if_splits dest!: heap_ok_make_inactive [rotated])

lemma heap_ok_transact:
  assumes "heap_ok h" and "Heap_transact h oid p t = Some (r, h')"
  shows "heap_ok h'"
  using assms
  by (auto simp: Heap_transact_def bind_eq_Some_conv heap_ok_data
      split: if_splits dest!: heap_ok_make_inactive [rotated])

lemma heap_ok_ammend:
  assumes "heap_ok h" and "Heap_ammend h oid p q = Some (r, h')"
  shows "heap_ok h'"
  using assms
  by (auto simp: Heap_ammend_def bind_eq_Some_conv push_down_0 Let_def heap_ok_data
      split: if_splits)


section \<open>The matching loop on orders priced at zero\<close>

text \<open>
  When the best buy and the best sell are both priced at 0 and have quantity left, a pass
  of the loop deducts the buy price, 0, from each: both orders get one more
  \<^verbatim>\<open>PARTIALLY_EXECUTED\<close> record with the same quantity, nothing is removed from either heap,
  and the next pass finds the same cross.
\<close>

lemma get_history_entry_all_before:
  assumes "list_all (\<lambda>e. date e \<le> t) (entries (order_history ord))"
  shows "get_history_entry ord t = last (entries (order_history ord))"
proof -
  have "takeWhile (\<lambda>e. t = -1 \<or> date e \<le> t) (entries (order_history ord))
          = entries (order_history ord)"
    using assms by (simp add: list_all_iff)
  then show ?thesis
    using entries_not_Nil [of "order_history ord"]
    by (cases "entries (order_history ord)")
       (simp_all add: get_history_entry_def history_loop_takeWhile del: takeWhile_eq_all_conv)
qed

lemma entries_dates_set_last_next:
  "list_all (\<lambda>e. date e \<le> t) (entries (set_last_next h n))
     = (list_all (\<lambda>e. date e \<le> t) (entries h) \<and> list_all (\<lambda>e. date e \<le> t) (entries n))"
proof -
  have "list_all (\<lambda>e. date e \<le> t) xs = list_all (\<lambda>d. d \<le> t) (map date xs)" for xs
    by (simp add: list_all_iff)
  then show ?thesis by (simp add: dates_set_last_next)
qed

lemma stuck_order_transact:
  assumes "stuck_order t ord"
  shows "\<exists>q. 0 < q \<and> get_quantity ord t = q \<and> get_price ord t = 0
           \<and> float_to_int (of_nat q - 0) = Some (int q)
           \<and> float_to_uint64 (of_nat q - 0) = Some q
           \<and> stuck_order t (Order_transact ord t 0 q)"
proof -
  let ?l = "last (entries (order_history ord))"
  let ?q = "quantity_remaining ?l"
  from assms have all: "list_all (\<lambda>e. date e \<le> t) (entries (order_history ord))"
    and l: "price ?l = 0" "0 < ?q" "?q < 2147483648" "history ?l \<noteq> EXECUTED"
    by (simp_all add: stuck_order_def Let_def)
  have g: "get_history_entry ord t = ?l" by (rule get_history_entry_all_before [OF all])
  have "?l \<in> set (entries (order_history ord))" by (simp add: entries_not_Nil)
  with all have dl: "date ?l \<le> t" by (simp add: list_all_iff)
  have fi: "float_to_int (of_nat ?q - 0) = Some (int ?q)"
    using l by (simp add: float_to_int_def)
  have fu: "float_to_uint64 (of_nat ?q - 0) = Some ?q"
    using l by (simp add: float_to_uint64_def)
  have st: "stuck_order t (Order_transact ord t 0 ?q)"
    using l dl all
    by (simp add: Order_transact_def add_execution_history_entry_def Let_def
        get_history_entry_now stuck_order_def entries_dates_set_last_next
        last_entries_set_last_next)
  from l g fi fu st show ?thesis
    by (simp add: get_quantity_def get_price_def)
qed

lemma stuck_heap_search:
  assumes "stuck_heap t h"
  shows "search h (order_id (data h 0)) = Some 0"
proof -
  from assms have m: "1 \<le> matched_ptr h" and a: "allocated h 0" by (simp_all add: stuck_heap_def)
  from m have "[0..matched_ptr h - 1] = 0 # [1..matched_ptr h - 1]"
    by (simp add: upto_rec1)
  with a show ?thesis
    by (simp add: search_def allocated_at_def in_bounds_def MAX_NUM_ORDERS_IN_HEAP_def)
qed

lemma stuck_heap_transact:
  assumes "stuck_heap t h"
  shows "\<exists>h'. Heap_transact h (order_id (data h 0)) (get_price (data h 0) (-1)) t = Some (True, h')
           \<and> stuck_heap t h'"
proof -
  let ?b = "data h 0"
  from assms have so: "stuck_order t ?b" by (simp add: stuck_heap_def)
  from stuck_order_transact [OF so] obtain q where
    q: "0 < q" "get_quantity ?b t = q" "get_price ?b t = 0"
       "float_to_int (of_nat q - 0) = Some (int q)" "float_to_uint64 (of_nat q - 0) = Some q"
       "stuck_order t (Order_transact ?b t 0 q)" by blast
  from so have p0: "get_price ?b (-1) = 0"
    by (simp add: stuck_order_def Let_def get_price_def get_history_entry_now)
  have "Heap_transact h (order_id ?b) 0 t
          = Some (True, h\<lparr>data := (data h)(0 := Order_transact ?b t 0 q)\<rparr>)"
    using q by (simp add: Heap_transact_def stuck_heap_search [OF assms] data_at_def in_bounds_def
        MAX_NUM_ORDERS_IN_HEAP_def)
  moreover have "stuck_heap t (h\<lparr>data := (data h)(0 := Order_transact ?b t 0 q)\<rparr>)"
    using assms q(6) by (simp add: stuck_heap_def)
  ultimately show ?thesis using p0 by simp
qed

lemma stuck_order_now:
  "stuck_order t ord \<Longrightarrow> get_price ord (-1) = 0 \<and> history (get_history_entry ord (-1)) \<noteq> EXECUTED"
  by (simp add: stuck_order_def Let_def get_price_def get_history_entry_now)

lemma stuck_entry_iteration:
  assumes "stuck_entry t e"
  shows "\<exists>ev e'. match_iteration e t = Some (True, ev, e') \<and> stuck_entry t e'"
proof -
  from assms have sb: "stuck_heap t (buys e)" and ss: "stuck_heap t (sells e)"
    by (simp_all add: stuck_entry_def)
  from sb have mb: "get_max_order (buys e) = Some (data (buys e) 0)"
    by (simp add: stuck_heap_def get_max_order_def)
  from sb have "stuck_order t (data (buys e) 0)" by (simp add: stuck_heap_def)
  from stuck_order_now [OF this] have nb: "get_price (data (buys e) 0) (-1) = 0"
      "history (get_history_entry (data (buys e) 0) (-1)) \<noteq> EXECUTED" by simp_all
  from ss have "stuck_order t (data (sells e) 0)" by (simp add: stuck_heap_def)
  from stuck_order_now [OF this] have ns: "get_price (data (sells e) 0) (-1) = 0"
      "history (get_history_entry (data (sells e) 0) (-1)) \<noteq> EXECUTED" by simp_all
  from stuck_heap_transact [OF sb] obtain hb where
    hb: "Heap_transact (buys e) (order_id (data (buys e) 0)) 0 t = Some (True, hb)"
        "stuck_heap t hb" using nb by auto
  from stuck_heap_transact [OF ss] obtain hs where
    hs: "Heap_transact (sells e) (order_id (data (sells e) 0)) 0 t = Some (True, hs)"
        "stuck_heap t hs" using ns by auto
  show ?thesis
    using mb nb ns hb hs
    by (simp add: match_iteration_def get_min_order_def Let_def stuck_entry_def)
qed

lemma match_loop_stuck_aux:
  assumes m: "match_loop e t out = Some y"
  shows "\<not> stuck_entry t e"
proof (rule match_loop.raw_induct [where P = "\<lambda>e t out y. \<not> stuck_entry t e", OF _ m],
    goal_cases)
  case (1 loop e t out y)
  show ?case
  proof
    assume "stuck_entry t e"
    from stuck_entry_iteration [OF this] obtain ev e' where
      it: "match_iteration e t = Some (True, ev, e')" and st: "stuck_entry t e'" by blast
    from "1"(2) it have "loop e' t (out @ ev) = Some y" by simp
    from "1"(1) [OF this] st show False by simp
  qed
qed

lemma match_loop_stuck: "stuck_entry t e \<Longrightarrow> match_loop e t out = None"
  using match_loop_stuck_aux [of e t out] by (cases "match_loop e t out") auto


lemma interpret_orders_append:
  "interpret_orders ob (cs @ cs') out =
     (case interpret_orders ob cs out of
        None \<Rightarrow> None
      | Some Undefined \<Rightarrow> Some Undefined
      | Some (Returns (ev, ob')) \<Rightarrow> interpret_orders ob' cs' ev)"
  by (induction cs arbitrary: ob out) (auto split: option.splits outcome.splits)

section \<open>C1: the quantity traded in a matching step\<close>

text \<open>
  C1. The claim: in a matching step with best buy \<open>b\<close> and best sell \<open>s\<close>, \<open>b.price \<ge> s.price\<close>,
  the quantity traded is \<open>min b.remaining_qty s.remaining_qty\<close> and both orders lose exactly
  that quantity. The code passes the buy price where the fill quantity belongs
  (\<^verbatim>\<open>buys->transact(b_oi, b_price, t)\<close>, \<^verbatim>\<open>sells->transact(s_oi, b_price, t)\<close>). With a buy of
  10 at price 2 and a sell of 7 at price 1, one pass of the loop prints the trade line and
  leaves 8 and 5, each order reduced by the price 2; the claim gives \<open>min 10 7 = 7\<close> and so
  3 and 0. The whole loop prints four trades and ends with the buy at 2 and the sell
  executed: 8 units bought against 7 sold.
\<close>

theorem C1_fill_deducts_buy_price:
  "do {
     (_, e1) \<leftarrow> Entry_add (Entry_new ''AB'') (Order_new 1 LIMIT 1 2 10) BUY;
     (_, e2) \<leftarrow> Entry_add e1 (Order_new 2 LIMIT 2 1 7) SELL;
     (again, ev, e3) \<leftarrow> match_iteration e2 3;
     Some (again, ev, get_quantity (data (buys e3) 0) (-1), get_quantity (data (sells e3) 0) (-1),
           case Entry_match e2 3 of
             Some (Returns (st, evs, e4)) \<Rightarrow>
               Some (length evs, records (data (buys e4) 0), records (data (sells e4) 0))
           | _ \<Rightarrow> None)
   } = Some (True, [Trade ''AB'' 1 LIMIT 10 2 1 7 LIMIT 2], 8, 5,
             Some (4,
               [(NOT_EXECUTED, 1, 2, 10), (PARTIALLY_EXECUTED, 3, 2, 8),
                (PARTIALLY_EXECUTED, 3, 2, 6), (PARTIALLY_EXECUTED, 3, 2, 4),
                (PARTIALLY_EXECUTED, 3, 2, 2)],
               [(NOT_EXECUTED, 2, 1, 7), (PARTIALLY_EXECUTED, 3, 1, 5),
                (PARTIALLY_EXECUTED, 3, 1, 3), (PARTIALLY_EXECUTED, 3, 1, 1),
                (EXECUTED, 3, 1, 0)]))"
  by (simp add: heap_eval order_eval entry_eval Entry_match_def match_loop.simps
      records_def record_of_def)

section \<open>C2: the order returned as top of a side book\<close>

text \<open>
  C2. The claim: \<open>top()\<close> is the active order of highest price-time priority, the largest
  price of a buy book and the smallest price of a sell book. \<^verbatim>\<open>has_precedence\<close> returns
  \<open>a.price < b.price\<close> before it looks at the heap type, \<^verbatim>\<open>get_parent\<close> and the child
  indices are all \<open>m << 1\<close>, and \<^verbatim>\<open>get_max_order\<close> looks at slots 0, 1 and 2 only.
  \<^item> In a buy heap holding an order at price 10 and then one at price 20, both active,
    \<^verbatim>\<open>get_max_order\<close> returns the order at price 10.
  \<^item> In a sell heap holding an order at price 20 and then one at price 10,
    \<^verbatim>\<open>get_min_order\<close>, which the matching loop uses for the sell side, returns the order at
    price 20.
  \<^item> In a sell heap holding orders at prices 20, 30, 40 and 10, in this order,
    \<^verbatim>\<open>get_max_order\<close> returns the order at price 20.
\<close>

theorem C2_top_is_not_best_price:
  "insert_all (Heap_new BUY_HEAP) [Order_new 1 LIMIT 1 10 5, Order_new 2 LIMIT 2 20 5] \<bind>
     (\<lambda>h. Some (get_max_order h, map (allocated h) [0, 1, 2], map (data h) [0, 1],
                 active_at (data h 1) (-1),
                 get_price (data h 0) (-1) < get_price (data h 1) (-1)))
   = Some (Some (Order_new 1 LIMIT 1 10 5), [True, True, False],
           [Order_new 1 LIMIT 1 10 5, Order_new 2 LIMIT 2 20 5], True, True)
   \<and>
   insert_all (Heap_new SELL_HEAP) [Order_new 3 LIMIT 1 20 5, Order_new 4 LIMIT 2 10 5] \<bind>
     (\<lambda>h. Some (get_min_order h, map (allocated h) [0, 1, 2], map (data h) [0, 1],
                 active_at (data h 1) (-1),
                 get_price (data h 1) (-1) < get_price (data h 0) (-1)))
   = Some (Some (Order_new 3 LIMIT 1 20 5), [True, True, False],
           [Order_new 3 LIMIT 1 20 5, Order_new 4 LIMIT 2 10 5], True, True)
   \<and>
   insert_all (Heap_new SELL_HEAP)
     [Order_new 5 LIMIT 1 20 5, Order_new 6 LIMIT 2 30 5, Order_new 7 LIMIT 3 40 5,
      Order_new 8 LIMIT 4 10 5] \<bind>
     (\<lambda>h. Some (get_max_order h, map (allocated h) [0, 1, 2, 3, 4], map (data h) [0, 1, 2, 3],
                 active_at (data h 3) (-1),
                 get_price (data h 3) (-1) < get_price (data h 0) (-1)))
   = Some (Some (Order_new 5 LIMIT 1 20 5), [True, True, True, True, False],
           [Order_new 5 LIMIT 1 20 5, Order_new 6 LIMIT 2 30 5, Order_new 7 LIMIT 3 40 5,
            Order_new 8 LIMIT 4 10 5], True, True)"
  by (simp add: heap_eval order_eval)

theorem C2_top_is_not_best_price_witness:
  "insert_all (Heap_new BUY_HEAP) [Order_new 1 LIMIT 1 10 5, Order_new 2 LIMIT 2 20 5] \<bind>
     (\<lambda>h. Some (get_max_order h, map (allocated h) [0, 1, 2], map (data h) [0, 1],
                 active_at (data h 1) (-1),
                 get_price (data h 0) (-1) < get_price (data h 1) (-1)))
   = Some (Some (Order_new 1 LIMIT 1 10 5), [True, True, False],
           [Order_new 1 LIMIT 1 10 5, Order_new 2 LIMIT 2 20 5], True, True)"
  using C2_top_is_not_best_price by (rule conjunct1)

section \<open>C3: commands with a timestamp before the book's\<close>

text \<open>
  C3, as stated, fails for query commands. The claim: every command whose timestamp is
  smaller than the book's is rejected with status 303. \<^verbatim>\<open>OrderBook::query\<close> never compares
  the command's timestamp with the book's: on the book left by \<^verbatim>\<open>N,1,5,AB,L,B,10,5\<close>
  (timestamp 5) the query \<^verbatim>\<open>Q,2\<close> returns \<^verbatim>\<open>ACCEPT\<close>, which is not 303.
\<close>

theorem C3_query_not_rejected:
  "c_timestamp (cmd_query F_QUERY_TIMESTAMP 2 []) < timestamp book_t5
   \<and> Book_query book_t5 (cmd_query F_QUERY_TIMESTAMP 2 []) = Some (ACCEPT, [])
   \<and> ACCEPT \<noteq> INVALID_ORDER_DETAILS"
  by (simp add: book_t5_def all_eval)

text \<open>
  C3, amended. A NEW, AMEND, CANCEL or MATCH command whose timestamp is smaller than the
  book's leaves the whole book unchanged (table, caches, symbol list and timestamp);
  \<^verbatim>\<open>ammend_order\<close>, \<^verbatim>\<open>cancel_order\<close> and \<^verbatim>\<open>match\<close> return \<^verbatim>\<open>INVALID_ORDER_DETAILS\<close> (303).
  Nothing is said about the value \<^verbatim>\<open>add_new_order\<close> returns.
\<close>

theorem C3_regressed_timestamp_rejected:
  assumes "c_timestamp c < timestamp ob"
  shows "ammend_order ob c = Some (INVALID_ORDER_DETAILS, ob)
       \<and> cancel_order ob c = Some (INVALID_ORDER_DETAILS, ob)
       \<and> Book_match ob c = Some (Returns (INVALID_ORDER_DETAILS, [], ob))
       \<and> map_option snd (add_new_order ob c) = Some ob
       \<and> (c_order_action c \<noteq> QUERY \<longrightarrow> (\<exists>ev. interpret_order ob c = Some (Returns (ev, ob))))"
proof -
  have a: "ammend_order ob c = Some (INVALID_ORDER_DETAILS, ob)"
    using assms by (simp add: ammend_order_def Let_def)
  have x: "cancel_order ob c = Some (INVALID_ORDER_DETAILS, ob)"
    using assms by (simp add: cancel_order_def)
  have m: "Book_match ob c = Some (Returns (INVALID_ORDER_DETAILS, [], ob))"
    using assms by (simp add: Book_match_def)
  have n: "add_new_order ob c = Some (INVALID_ORDER_DETAILS \<noteq> 0, ob)"
    using assms by (simp add: add_new_order_def)
  have i: "\<exists>ev. interpret_order ob c = Some (Returns (ev, ob))" if "c_order_action c \<noteq> QUERY"
    using that by (cases "c_order_action c") (simp_all add: interpret_order_def lift_outcome_def a x m n)
  show ?thesis using a x m n i by simp
qed

theorem C3_regressed_timestamp_rejected_witness:
  "c_timestamp (cmd_cancel 1 3) < timestamp book_t5
   \<and> cancel_order book_t5 (cmd_cancel 1 3) = Some (INVALID_ORDER_DETAILS, book_t5)
   \<and> (\<exists>ev. interpret_order book_t5 (cmd_cancel 1 3) = Some (Returns (ev, book_t5)))"
proof -
  have h: "c_timestamp (cmd_cancel 1 3) < timestamp book_t5"
    by (simp add: book_t5_def all_eval)
  have a: "c_order_action (cmd_cancel 1 3) \<noteq> QUERY"
    by (simp add: cmd_cancel_def)
  from C3_regressed_timestamp_rejected [OF h] a h show ?thesis by simp
qed

section \<open>C4: cancelling an order id that was never admitted\<close>

text \<open>
  C4. The claim: a cancel command for an id no NEW command admitted prints
  \<open>CancelReject\<close> with code 404 and changes nothing. \<^verbatim>\<open>cancel_order\<close> reads
  \<^verbatim>\<open>cache_order_to_symbol[h]->symbol\<close> before it tests anything: on a fresh book the bucket
  is \<^verbatim>\<open>NULL\<close> and \<^verbatim>\<open>X,999,10\<close> dereferences it, so the call has no defined result. When
  another id shares the bucket (1 and 65537), \<^verbatim>\<open>X,65537,2\<close> finds the node of order 1,
  prints \<open>CancelAccept\<close> and moves the book's timestamp to 2.
\<close>

theorem C4_cancel_unknown_id:
  "cancel_order Book_new (cmd_cancel 999 10) = None
   \<and> interpret_order Book_new (cmd_cancel 999 10) = Some Undefined
   \<and> (book_after [cmd_new 1 1 ''AB'' LIMIT BUY 10 5] \<bind>
        (\<lambda>ob. interpret_order ob (cmd_cancel 65537 2)) \<bind>
        (\<lambda>r. case r of Undefined \<Rightarrow> None | Returns (ev, ob) \<Rightarrow> Some (ev, timestamp ob)))
       = Some ([CancelAccept 65537], 2)"
  by (simp add: all_eval)

section \<open>C6: the history record an amendment appends\<close>

text \<open>
  C6. For every order, \<^verbatim>\<open>Order::ammend(new_price, new_quantity)\<close> appends exactly one
  history record: the records afterwards are the records before followed by one record
  that carries the order's current status and current timestamp and the new price and
  quantity. The order's id and type are unchanged, and so are its creation timestamp (the
  date of the first record) and its current timestamp, on which its arrival-time
  priority rests; the current status is kept, and the current price and quantity are the
  new ones.
\<close>

theorem C6_amend_appends_one_record:
  "records (Order_ammend ord p q) =
     records ord @ [(get_status ord (-1), get_timestamp ord (-1), p, q)]
   \<and> length (records (Order_ammend ord p q)) = length (records ord) + 1
   \<and> order_id (Order_ammend ord p q) = order_id ord
   \<and> order_type (Order_ammend ord p q) = order_type ord
   \<and> date (order_history (Order_ammend ord p q)) = date (order_history ord)
   \<and> get_timestamp (Order_ammend ord p q) (-1) = get_timestamp ord (-1)
   \<and> get_status (Order_ammend ord p q) (-1) = get_status ord (-1)
   \<and> get_price (Order_ammend ord p q) (-1) = p
   \<and> get_quantity (Order_ammend ord p q) (-1) = q"
  by (simp add: Order_ammend_def add_execution_history_entry_def Let_def records_def
      entries_set_last_next record_of_def get_timestamp_def get_status_def get_price_def
      get_quantity_def get_history_entry_now last_entries_set_last_next)

theorem C6_amend_appends_one_record_witness:
  "records (Order_ammend (Order_new 1 LIMIT 1 10 5) 20 7)
     = [(NOT_EXECUTED, 1, 10, 5), (NOT_EXECUTED, 1, 20, 7)]
   \<and> order_id (Order_ammend (Order_new 1 LIMIT 1 10 5) 20 7) = 1
   \<and> get_timestamp (Order_ammend (Order_new 1 LIMIT 1 10 5) 20 7) (-1) = 1"
  using C6_amend_appends_one_record [of "Order_new 1 LIMIT 1 10 5" 20 7]
  by (simp add: records_def record_of_def order_eval)

text \<open>
  \<^verbatim>\<open>OrderMinMaxHeap::ammend\<close> calls \<^verbatim>\<open>Order::ammend\<close> and then
  \<^verbatim>\<open>add_execution_history_entry\<close> once more with the same status, timestamp, price and
  quantity: after \<^verbatim>\<open>N,1,1,AB,L,B,10,5\<close> the line \<^verbatim>\<open>A,1,2,AB,L,B,20,7\<close> leaves the history of
  order 1 ending in two equal records. \<^verbatim>\<open>ammend_order\<close> returns 1 and the book's timestamp
  stays 1.
\<close>

lemma ammend_order_repeats_record:
  "book_after [cmd_new 1 1 ''AB'' LIMIT BUY 10 5] \<bind>
     (\<lambda>ob. ammend_order ob (cmd_amend 1 2 ''AB'' LIMIT BUY 20 7)) \<bind>
     (\<lambda>(st, ob). do {
        e \<leftarrow> lookup ob ''AB'';
        Some (st, order_id (data (buys e) 0), records (data (buys e) 0), timestamp ob) })
   = Some (1, 1,
           [(NOT_EXECUTED, 1, 10, 5), (NOT_EXECUTED, 1, 20, 7), (NOT_EXECUTED, 1, 20, 7)], 1)"
  by (simp add: all_eval records_def record_of_def)

section \<open>C8: the list of symbol names\<close>

text \<open>
  C8. The claim: after accepted NEW commands the symbol list is the sorted key set of the
  books, and a global query prints the symbols in ascending order.
  \<^verbatim>\<open>OrderBook::insert\<close> walks the list while the node's symbol is smaller than the key and
  the node has a successor, and links the new node in after the node it stops at, also
  when that node's symbol is larger than the key. The lines \<^verbatim>\<open>N,1,1,A,L,B,10,5\<close>,
  \<^verbatim>\<open>N,2,2,C,L,B,10,5\<close>, \<^verbatim>\<open>N,3,3,B,L,B,10,5\<close> are all accepted and leave the list
  \<open>A, C, B\<close>; each of the three symbols has its book; \<^verbatim>\<open>Q\<close> prints the rows of \<open>C\<close> before
  those of \<open>B\<close>.
\<close>

theorem C8_symbol_list_not_sorted:
  "interpret_orders Book_new
     [cmd_new 1 1 ''A'' LIMIT BUY 10 5, cmd_new 2 2 ''C'' LIMIT BUY 10 5,
      cmd_new 3 3 ''B'' LIMIT BUY 10 5] [] \<bind>
     (\<lambda>r. case r of
        Undefined \<Rightarrow> None
      | Returns (ev, ob) \<Rightarrow>
          Some (ev, cache_list_sorted_symbol_names ob,
                map (\<lambda>s. map_option symbol (lookup ob s)) [''A'', ''B'', ''C''],
                Book_query ob (cmd_query F_QUERY 0 [])))
   = Some ([Accept 1, Accept 2, Accept 3], [''A'', ''C'', ''B''],
           [Some ''A'', Some ''B'', Some ''C''],
           Some (ACCEPT,
             [SnapshotRow ''A'' (Some (1, LIMIT, 5, 10)) None,
              SnapshotRow ''C'' (Some (2, LIMIT, 5, 10)) None,
              SnapshotRow ''B'' (Some (3, LIMIT, 5, 10)) None]))"
  by (simp add: all_eval)

section \<open>C10: queries leave the book as it is\<close>

text \<open>
  C10. A query command, in any of its forms, leaves the whole book unchanged: when
  \<^verbatim>\<open>interpret_order\<close> returns, the book is the one it was given, with the same timestamp,
  table and caches, whatever timestamp the query carries. The other possible result is an
  execution without a defined result (\<^verbatim>\<open>entry->query()\<close> on a symbol without a book, or an
  access outside the arrays of \<^verbatim>\<open>get_max_n_orders\<close>); a query always ends.
\<close>

theorem C10_query_leaves_book_unchanged:
  assumes "c_order_action c = QUERY"
  shows "interpret_order ob c = Some Undefined
       \<or> (\<exists>rows. interpret_order ob c = Some (Returns (rows, ob)))"
  using assms
  by (cases "Book_query ob c") (auto simp: interpret_order_def lift_outcome_def)

theorem C10_query_leaves_book_unchanged_witness:
  "timestamp book_t5 < c_timestamp (cmd_query F_QUERY_TIMESTAMP 9 [])
   \<and> interpret_order book_t5 (cmd_query F_QUERY_TIMESTAMP 9 []) \<noteq> Some Undefined
   \<and> (\<exists>rows. interpret_order book_t5 (cmd_query F_QUERY_TIMESTAMP 9 [])
               = Some (Returns (rows, book_t5)))"
proof -
  have a: "c_order_action (cmd_query F_QUERY_TIMESTAMP 9 []) = QUERY"
    by (simp add: cmd_query_def)
  have t: "timestamp book_t5 < c_timestamp (cmd_query F_QUERY_TIMESTAMP 9 [])"
    by (simp add: book_t5_def all_eval)
  have d: "interpret_order book_t5 (cmd_query F_QUERY_TIMESTAMP 9 []) \<noteq> Some Undefined"
    by (simp add: book_t5_def all_eval)
  from C10_query_leaves_book_unchanged [OF a, of book_t5] d t show ?thesis by simp
qed

section \<open>C7: the record in force at a time\<close>

text \<open>
  C7, as stated, fails on uniqueness. The claim: for an admitted order and \<open>t\<close> not before
  its creation, \<^verbatim>\<open>get_history_entry\<close> returns the unique record with the largest timestamp
  at most \<open>t\<close>. An amendment appends records with the timestamp of the record before
  them: order 1, created at time 1 at price 10 by \<^verbatim>\<open>N,1,1,AB,L,B,10,5\<close> and amended to price
  20 by \<^verbatim>\<open>A,1,2,AB,L,B,20,5\<close>, has records at price 10 and at price 20 that all carry
  timestamp 1, the largest timestamp at most 1. The code returns the last of them.
\<close>

theorem C7_latest_record_not_unique:
  "admitted order_amended
   \<and> date (order_history order_amended) \<le> 1
   \<and> latest_records order_amended 1
       = [(NOT_EXECUTED, 1, 10, 5), (NOT_EXECUTED, 1, 20, 5), (NOT_EXECUTED, 1, 20, 5)]
   \<and> record_of (get_history_entry order_amended 1) = (NOT_EXECUTED, 1, 20, 5)
   \<and> latest_records order_amended 1 \<noteq> [record_of (get_history_entry order_amended 1)]"
proof -
  have "order_amended =
          add_execution_history_entry
            (add_execution_history_entry (Order_new 1 LIMIT 1 10 5) NOT_EXECUTED 1 20 5)
            NOT_EXECUTED 1 20 5"
    by (simp add: order_amended_def all_eval)
  moreover have "admitted
          (add_execution_history_entry
            (add_execution_history_entry (Order_new 1 LIMIT 1 10 5) NOT_EXECUTED 1 20 5)
            NOT_EXECUTED 1 20 5)"
    by (intro admitted.intros) simp
  ultimately have "admitted order_amended"
    by simp
  then show ?thesis
    by (simp add: order_amended_def latest_records_def records_def record_of_def all_eval)
qed

text \<open>
  C7, amended. For an admitted order and \<open>t\<close> not before its creation,
  \<^verbatim>\<open>get_history_entry\<close> returns the last record, in the order of the history, among those
  with timestamp at most \<open>t\<close>. Its timestamp is at most \<open>t\<close>, no record with timestamp at
  most \<open>t\<close> has a larger one, and among the records with that largest timestamp it is the
  last.
\<close>

theorem C7_as_of_returns_last_record:
  assumes "admitted ord" and "date (order_history ord) \<le> t"
  shows "get_history_entry ord t =
           last (filter (\<lambda>e. date e \<le> t) (entries (order_history ord)))
       \<and> date (get_history_entry ord t) \<le> t
       \<and> (\<forall>e \<in> set (entries (order_history ord)).
             date e \<le> t \<longrightarrow> date e \<le> date (get_history_entry ord t))
       \<and> latest_records ord t \<noteq> []
       \<and> record_of (get_history_entry ord t) = last (latest_records ord t)"
proof -
  let ?es = "entries (order_history ord)"
  let ?F = "filter (\<lambda>e. date e \<le> t) ?es"
  let ?g = "get_history_entry ord t"
  let ?Q = "\<lambda>r. fst (snd r) \<le> t
              \<and> (\<forall>r' \<in> set (records ord). fst (snd r') \<le> t \<longrightarrow> fst (snd r') \<le> fst (snd r))"
  note ne = get_history_entry_as_of(1) [OF assms]
  note g = get_history_entry_as_of(2) [OF assms]
  from admitted_sorted [OF assms(1)] have srt: "sorted (map date ?es)" by simp
  have gin: "?g \<in> set ?F" unfolding g by (rule last_in_set [OF ne])
  then have gt: "date ?g \<le> t" by simp
  have sF: "sorted (map date ?F)" using srt by (rule sorted_filter)
  have mx: "date e \<le> date ?g" if "e \<in> set ?es" "date e \<le> t" for e
  proof -
    from that have "date e \<in> set (map date ?F)" by simp
    from sorted_le_last [OF sF this] show ?thesis using ne g by (simp add: last_map)
  qed
  have Qg: "?Q (record_of ?g)"
    using gt mx by (auto simp: records_def record_of_def)
  have lr: "latest_records ord t = map record_of (filter (?Q \<circ> record_of) ?es)"
    by (simp add: latest_records_def records_def filter_map)
  have imp: "\<And>x. (?Q \<circ> record_of) x \<Longrightarrow> date x \<le> t" by (simp add: record_of_def)
  have Qg': "(?Q \<circ> record_of) (last ?F)" using Qg g by simp
  have lst: "last (filter (?Q \<circ> record_of) ?es) = last ?F"
    using last_filter_stronger [of "\<lambda>e. date e \<le> t" ?es "?Q \<circ> record_of", OF ne Qg' imp]
    by simp
  have ne': "filter (?Q \<circ> record_of) ?es \<noteq> []"
    using gin Qg by (auto simp: filter_empty_conv)
  show ?thesis
    using g gt mx ne' lr lst by (simp add: last_map)
qed

theorem C7_as_of_returns_last_record_witness:
  "admitted order_amended
   \<and> date (order_history order_amended) \<le> 1
   \<and> record_of (get_history_entry order_amended 1) = last (latest_records order_amended 1)
   \<and> record_of (get_history_entry order_amended 1) = (NOT_EXECUTED, 1, 20, 5)"
proof -
  have "order_amended =
          add_execution_history_entry
            (add_execution_history_entry (Order_new 1 LIMIT 1 10 5) NOT_EXECUTED 1 20 5)
            NOT_EXECUTED 1 20 5"
    by (simp add: order_amended_def all_eval)
  moreover have "admitted
          (add_execution_history_entry
            (add_execution_history_entry (Order_new 1 LIMIT 1 10 5) NOT_EXECUTED 1 20 5)
            NOT_EXECUTED 1 20 5)"
    by (intro admitted.intros) simp
  ultimately have a: "admitted order_amended"
    by simp
  have d: "date (order_history order_amended) \<le> 1"
    by (simp add: order_amended_def all_eval)
  have r: "record_of (get_history_entry order_amended 1) = (NOT_EXECUTED, 1, 20, 5)"
    by (simp add: order_amended_def record_of_def all_eval)
  from C7_as_of_returns_last_record [OF a d] a d r show ?thesis by simp
qed

section \<open>C9: cancel reports acceptance whatever the side book finds\<close>

text \<open>
  C9. For a cancel command that passes the timestamp test, whose id hashes to a bucket of
  \<^verbatim>\<open>cache_order_to_symbol\<close> with a node, and whose symbol lookup finds a book, with the
  selected side book well formed: \<^verbatim>\<open>cancel_order\<close> returns \<^verbatim>\<open>ACCEPT\<close> and the driver prints
  \<open>CancelAccept\<close>. This holds also when \<^verbatim>\<open>search\<close> finds no allocated order with that id
  in the side book: \<^verbatim>\<open>OrderMinMaxHeap::cancel\<close> then returns \<^verbatim>\<open>ORDER_DOES_NOT_EXIST\<close> and
  leaves the heap alone, \<^verbatim>\<open>OrderEntry::cancel\<close> drops that status, and only the book's
  timestamp changes.
\<close>

theorem C9_cancel_reports_accept:
  assumes ts: "\<not> c_timestamp c < timestamp ob"
    and cache: "cache_order_to_symbol ob (hash (int (c_order_id c) mod 4294967296)) = (oi, s) # rest"
    and lk: "lookup ob s = Some oe"
    and ok: "heap_ok (side_heap oe (c_side c))"
  shows "(\<exists>ob'. cancel_order ob c = Some (ACCEPT, ob')
            \<and> (c_order_action c = CANCEL \<longrightarrow>
                 interpret_order ob c = Some (Returns ([CancelAccept (c_order_id c)], ob'))))
       \<and> (search (side_heap oe (c_side c)) (c_order_id c) = Some (-1) \<longrightarrow>
            Heap_cancel (side_heap oe (c_side c)) (c_order_id c)
              = Some (ORDER_DOES_NOT_EXIST, side_heap oe (c_side c))
            \<and> cancel_order ob c = Some (ACCEPT, ob\<lparr>timestamp := c_timestamp c\<rparr>))"
proof -
  from Heap_cancel_defined [OF ok, of "c_order_id c"] obtain st h' where
    hc: "Heap_cancel (side_heap oe (c_side c)) (c_order_id c) = Some (st, h')" by blast
  let ?oe' = "case c_side c of BUY \<Rightarrow> oe\<lparr>buys := h'\<rparr> | SELL \<Rightarrow> oe\<lparr>sells := h'\<rparr>"
  let ?ob' = "ob\<lparr>table := (table ob)(hash_symbol s := Some ?oe'), timestamp := c_timestamp c\<rparr>"
  have ec: "Entry_cancel oe (c_order_id c) (c_side c) = Some (ACCEPT, ?oe')"
    by (simp add: Entry_cancel_heap hc)
  have co: "cancel_order ob c = Some (ACCEPT, ?ob')"
    using ts cache lk by (simp add: cancel_order_def ec)
  have io: "interpret_order ob c = Some (Returns ([CancelAccept (c_order_id c)], ?ob'))"
    if "c_order_action c = CANCEL"
    using that by (simp add: interpret_order_def lift_outcome_def co)
  have nf: "Heap_cancel (side_heap oe (c_side c)) (c_order_id c)
              = Some (ORDER_DOES_NOT_EXIST, side_heap oe (c_side c))
            \<and> cancel_order ob c = Some (ACCEPT, ob\<lparr>timestamp := c_timestamp c\<rparr>)"
    if s: "search (side_heap oe (c_side c)) (c_order_id c) = Some (-1)"
  proof -
    from Heap_cancel_not_found [OF s] hc have h': "h' = side_heap oe (c_side c)" by simp
    then have "?oe' = oe" by (cases "c_side c") (simp_all add: side_heap_def)
    moreover have "(table ob)(hash_symbol s := Some oe) = table ob"
      using lk by (auto simp: lookup_def)
    ultimately have "?ob' = ob\<lparr>timestamp := c_timestamp c\<rparr>" by simp
    with co Heap_cancel_not_found [OF s] show ?thesis by simp
  qed
  from co io nf show ?thesis by blast
qed


theorem C9_cancel_reports_accept_witness:
  "search (buys (the (lookup book_two_sided ''AB''))) 2 = Some (-1)
   \<and> cancel_order book_two_sided (cmd_cancel 2 3) = Some (ACCEPT, book_two_sided\<lparr>timestamp := 3\<rparr>)
   \<and> interpret_order book_two_sided (cmd_cancel 2 3)
       = Some (Returns ([CancelAccept 2], book_two_sided\<lparr>timestamp := 3\<rparr>))"
proof -
  let ?c = "cmd_cancel 2 3"
  let ?oe = "the (lookup book_two_sided ''AB'')"
  have ts: "\<not> c_timestamp ?c < timestamp book_two_sided"
    by (simp add: book_two_sided_def all_eval)
  have cache: "cache_order_to_symbol book_two_sided (hash (int (c_order_id ?c) mod 4294967296))
                 = (2, ''AB'') # []"
    by (simp add: book_two_sided_def all_eval)
  have lk: "lookup book_two_sided ''AB'' = Some ?oe"
    by (simp add: book_two_sided_def all_eval)
  have sd: "side_heap ?oe (c_side ?c) = buys ?oe"
    by (simp add: side_heap_def cmd_cancel_def)
  have ok: "heap_ok (side_heap ?oe (c_side ?c))"
    unfolding sd by (simp add: heap_ok_def book_two_sided_def all_eval)
  have nf: "search (side_heap ?oe (c_side ?c)) (c_order_id ?c) = Some (-1)"
    unfolding sd by (simp add: book_two_sided_def all_eval)
  have act: "c_order_action ?c = CANCEL" "c_order_id ?c = 2" "c_timestamp ?c = 3"
    by (simp_all add: cmd_cancel_def)
  from C9_cancel_reports_accept [OF ts cache lk ok] nf act sd show ?thesis by auto
qed


section \<open>C5: termination of the matching loop\<close>

text \<open>
  C5. The claim: the matching loop ends for every reachable book, because every pass
  fills one of the two top orders or reduces the quantity of both. The quantity a pass
  deducts is the buy price (see C1), which is 0 when the best buy is priced at 0. After
  \<^verbatim>\<open>N,1,1,AB,L,B,0,5\<close> and \<^verbatim>\<open>N,2,2,AB,L,S,0,5\<close> no pass changes a quantity or removes an
  order: \<^verbatim>\<open>OrderEntry::match(3)\<close> never returns, and neither does the run of those two lines
  followed by \<^verbatim>\<open>M,3,AB\<close>. (\<open>None\<close> is the value of a loop that does not return; a pass
  without a defined result would give \<open>Some Undefined\<close>.)
\<close>

theorem C5_match_loop_never_returns:
  "stuck_entry 3 (the (lookup book_zero ''AB''))
   \<and> Entry_match (the (lookup book_zero ''AB'')) 3 = None
   \<and> interpret_order book_zero (cmd_match_symbol 3 ''AB'') = None
   \<and> interpret_orders Book_new
        [cmd_new 1 1 ''AB'' LIMIT BUY 0 5, cmd_new 2 2 ''AB'' LIMIT SELL 0 5,
         cmd_match_symbol 3 ''AB''] [] = None"
proof -
  define e where "e = the (lookup book_zero ''AB'')"
  have st: "stuck_entry 3 e"
    unfolding e_def
    by (simp add: book_zero_def stuck_entry_def stuck_heap_def stuck_order_def all_eval)
  then have em: "Entry_match e 3 = None"
    by (simp add: Entry_match_def match_loop_stuck)
  have lk: "lookup book_zero ''AB'' = Some e"
    unfolding e_def by (simp add: book_zero_def all_eval)
  have ts: "\<not> c_timestamp (cmd_match_symbol 3 ''AB'') < timestamp book_zero"
    by (simp add: book_zero_def all_eval)
  have io: "interpret_order book_zero (cmd_match_symbol 3 ''AB'') = None"
    using ts lk em
    by (simp add: interpret_order_def Book_match_def cmd_match_symbol_def)
  have pre: "interpret_orders Book_new
        [cmd_new 1 1 ''AB'' LIMIT BUY 0 5, cmd_new 2 2 ''AB'' LIMIT SELL 0 5] []
       = Some (Returns ([Accept 1, Accept 2], book_zero))"
    by (simp add: book_zero_def all_eval)
  have "interpret_orders Book_new
        ([cmd_new 1 1 ''AB'' LIMIT BUY 0 5, cmd_new 2 2 ''AB'' LIMIT SELL 0 5] @
         [cmd_match_symbol 3 ''AB'']) [] = None"
    unfolding interpret_orders_append pre by (simp add: io)
  with st em io show ?thesis unfolding e_def by simp
qed


end
